theory Spec2Isabelle
  imports Complex_Main
begin

section \<open>Platform values the cartridge computes with\<close>

text \<open>
  The cartridge runs against the commerce platform's script API (\<^verbatim>\<open>dw.value.Money\<close>,
  \<^verbatim>\<open>dw.order.Basket\<close>, \<^verbatim>\<open>dw.order.OrderMgr\<close>, ...). Those classes are not part of the
  repository; they are modelled here from the interface the specification gives them
  (sections 3, 4.1 and 6), and every function of the repository is translated from its
  JavaScript source on top of them.
\<close>

datatype exn =
    IllegalArgument   \<comment> \<open>Money arithmetic on two different currencies\<close>
  | TypeError         \<comment> \<open>property read on \<^verbatim>\<open>null\<close>\<close>
  | JSError           \<comment> \<open>\<^verbatim>\<open>throw new Error()\<close>\<close>
  | MailError         \<comment> \<open>the mail collaborator raised\<close>

text \<open>
  Modelled from the spec: Money is an immutable currency-tagged decimal amount with
  add, subtract and compare; arithmetic needs matching currency codes, a mismatch is
  an error. The decimal is an exact rational here. The source's \<^verbatim>\<open>.value\<close> is the
  field \<open>mvalue\<close>.
\<close>

record money =
  mvalue :: rat
  currencyCode :: string

definition Money :: "rat \<Rightarrow> string \<Rightarrow> money" where
  "Money v c = \<lparr>mvalue = v, currencyCode = c\<rparr>"

definition Money_add :: "money \<Rightarrow> money \<Rightarrow> exn + money" where
  "Money_add a b =
     (if currencyCode a = currencyCode b
      then Inr (Money (mvalue a + mvalue b) (currencyCode a))
      else Inl IllegalArgument)"

definition Money_subtract :: "money \<Rightarrow> money \<Rightarrow> exn + money" where
  "Money_subtract a b =
     (if currencyCode a = currencyCode b
      then Inr (Money (mvalue a - mvalue b) (currencyCode a))
      else Inl IllegalArgument)"

text \<open>
  The source compares two Money objects with the JavaScript operator \<^verbatim>\<open><\<close>, which
  compares their primitive values: the value portions.
\<close>

definition Money_less :: "money \<Rightarrow> money \<Rightarrow> bool" where
  "Money_less a b = (mvalue a < mvalue b)"

subsection \<open>Payment instruments and the basket\<close>

definition METHOD_GIFT_CERTIFICATE :: string where
  "METHOD_GIFT_CERTIFICATE = ''GIFT_CERTIFICATE''"

text \<open>
  A payment instrument with its payment transaction's amount. The gift certificate code
  is \<open>None\<close> on an instrument that is not a gift certificate instrument.
\<close>

record paymentInstrument =
  paymentMethod :: string
  giftCertificateCode :: "string option"
  transactionAmount :: money

text \<open>
  A gift certificate line item of a basket or an order: a request to issue a
  certificate.
\<close>

record giftCertificateLineItem =
  li_UUID :: string
  li_senderName :: string
  li_recipientName :: string
  li_recipientEmail :: string
  li_message :: string
  li_basePrice :: money
  li_grossPrice :: money
  li_netPrice :: money

record basket =
  basketCurrencyCode :: string
  totalGrossPrice :: money
  paymentInstruments :: "paymentInstrument list"
  giftCertificateLineItems :: "giftCertificateLineItem list"
  productQuantityTotal :: rat

text \<open>
  A gift certificate (the durable credential): its code and balance are what redemption
  reads, the other fields are what order placement writes.
\<close>

record giftCertificate =
  gc_code :: string
  gc_amount :: rat
  gc_balance :: money
  gc_recipientEmail :: string
  gc_recipientName :: string
  gc_senderName :: string
  gc_message :: string
  gc_orderNo :: "string option"

text \<open>
  Modelled from the spec (4.1, Instrument Ledger): the basket's instrument collection
  is ordered; the listing calls return a snapshot filtered by kind and, if given, by
  credential code; removal detaches the given instrument; creation appends a new
  gift certificate instrument carrying the given amount and returns it.
\<close>

definition isGiftCertificate :: "paymentInstrument \<Rightarrow> bool" where
  "isGiftCertificate p = (METHOD_GIFT_CERTIFICATE = paymentMethod p)"

definition boundTo :: "string \<Rightarrow> paymentInstrument \<Rightarrow> bool" where
  "boundTo code p = (isGiftCertificate p \<and> giftCertificateCode p = Some code)"

definition getPaymentInstruments :: "basket \<Rightarrow> paymentInstrument list" where
  "getPaymentInstruments b = paymentInstruments b"

definition getGiftCertificatePaymentInstruments :: "basket \<Rightarrow> paymentInstrument list" where
  "getGiftCertificatePaymentInstruments b = filter isGiftCertificate (paymentInstruments b)"

definition getGiftCertificatePaymentInstrumentsFor ::
  "basket \<Rightarrow> string \<Rightarrow> paymentInstrument list" where
  "getGiftCertificatePaymentInstrumentsFor b code = filter (boundTo code) (paymentInstruments b)"

definition removePaymentInstrument :: "basket \<Rightarrow> paymentInstrument \<Rightarrow> basket" where
  "removePaymentInstrument b p = b\<lparr>paymentInstruments := remove1 p (paymentInstruments b)\<rparr>"

definition Basket_createGiftCertificatePaymentInstrument ::
  "basket \<Rightarrow> string \<Rightarrow> money \<Rightarrow> paymentInstrument \<times> basket" where
  "Basket_createGiftCertificatePaymentInstrument b code amount =
     (let p = \<lparr>paymentMethod = METHOD_GIFT_CERTIFICATE, giftCertificateCode = Some code,
                transactionAmount = amount\<rparr>
      in (p, b\<lparr>paymentInstruments := paymentInstruments b @ [p]\<rparr>))"

section \<open>Redeeming a gift certificate against a basket\<close>

text \<open>
  \<^verbatim>\<open>createGiftCertificatePaymentInstrument\<close> (giftCertHelpers.js and the checkout
  helpers carry the same body). Its two \<^verbatim>\<open>while\<close> loops run over a snapshot of
  instruments: the first removes each one from the basket, the second adds up the
  transaction amounts.
\<close>

fun removeLoop :: "paymentInstrument list \<Rightarrow> basket \<Rightarrow> basket" where
  "removeLoop [] b = b"
| "removeLoop (existingPI # rest) b = removeLoop rest (removePaymentInstrument b existingPI)"

fun sumLoop :: "paymentInstrument list \<Rightarrow> money \<Rightarrow> exn + money" where
  "sumLoop [] giftCertTotal = Inr giftCertTotal"
| "sumLoop (orderPI # rest) giftCertTotal =
     (case Money_add giftCertTotal (transactionAmount orderPI) of
        Inl e \<Rightarrow> Inl e
      | Inr t \<Rightarrow> sumLoop rest t)"

definition createGiftCertificatePaymentInstrument ::
  "basket \<Rightarrow> giftCertificate \<Rightarrow> exn + (paymentInstrument \<times> basket)" where
  "createGiftCertificatePaymentInstrument currentBasket giftCertificate =
     (let b1 = removeLoop
                 (getGiftCertificatePaymentInstrumentsFor currentBasket (gc_code giftCertificate))
                 currentBasket;
          balance = gc_balance giftCertificate;
          orderTotal = totalGrossPrice b1;
          amountToRedeem = balance
      in case sumLoop (getGiftCertificatePaymentInstruments b1)
                (Money 0 (basketCurrencyCode b1)) of
           Inl e \<Rightarrow> Inl e
         | Inr giftCertTotal \<Rightarrow>
             (case Money_subtract orderTotal giftCertTotal of
                Inl e \<Rightarrow> Inl e
              | Inr orderBalance \<Rightarrow>
                  Inr (Basket_createGiftCertificatePaymentInstrument b1
                         (gc_code giftCertificate)
                         (if Money_less orderBalance amountToRedeem
                          then orderBalance else amountToRedeem))))"

text \<open>
  \<^verbatim>\<open>removeGiftCertificatePaymentInstrument\<close>: the same removal loop, alone.
\<close>

definition removeGiftCertificatePaymentInstrument :: "basket \<Rightarrow> string \<Rightarrow> basket" where
  "removeGiftCertificatePaymentInstrument currentBasket giftCertificateID =
     removeLoop (getGiftCertificatePaymentInstrumentsFor currentBasket giftCertificateID)
       currentBasket"

section \<open>Balancing the conventional payment instrument\<close>

text \<open>
  The result object \<^verbatim>\<open>{ error: ... }\<close> that \<^verbatim>\<open>calculatePaymentTransaction\<close> and
  \<^verbatim>\<open>placeOrder\<close> return.
\<close>

record result =
  error :: bool

text \<open>
  The first loop of \<^verbatim>\<open>calculatePaymentTransaction\<close>: it adds up the gift certificate
  amounts until it meets an instrument of another payment method, captures that one and
  breaks. The captured object is a reference into the basket: its position \<open>i\<close>.
\<close>

fun scanLoop :: "paymentInstrument list \<Rightarrow> nat \<Rightarrow> money \<Rightarrow> exn + (money \<times> nat option)" where
  "scanLoop [] i giftCertTotal = Inr (giftCertTotal, None)"
| "scanLoop (paymentInstrument # rest) i giftCertTotal =
     (if METHOD_GIFT_CERTIFICATE = paymentMethod paymentInstrument
      then (case Money_add giftCertTotal (transactionAmount paymentInstrument) of
              Inl e \<Rightarrow> Inl e
            | Inr t \<Rightarrow> scanLoop rest (Suc i) t)
      else Inr (giftCertTotal, Some i))"

text \<open>
  \<^verbatim>\<open>getNonGiftCertificateAmount\<close>: the order total minus the amounts of all gift
  certificate instruments of the basket.
\<close>

definition getNonGiftCertificateAmount :: "basket \<Rightarrow> exn + money" where
  "getNonGiftCertificateAmount currentBasket =
     (case sumLoop (getGiftCertificatePaymentInstruments currentBasket)
             (Money 0 (basketCurrencyCode currentBasket)) of
        Inl e \<Rightarrow> Inl e
      | Inr giftCertTotal \<Rightarrow> Money_subtract (totalGrossPrice currentBasket) giftCertTotal)"

text \<open>
  \<^verbatim>\<open>nonGCPaymentInstrument.getPaymentTransaction().setAmount(amount)\<close> on the instrument
  at position \<open>i\<close>.
\<close>

definition setAmount :: "basket \<Rightarrow> nat \<Rightarrow> money \<Rightarrow> basket" where
  "setAmount b i amount =
     b\<lparr>paymentInstruments :=
         (paymentInstruments b)[i := (paymentInstruments b ! i)\<lparr>transactionAmount := amount\<rparr>]\<rparr>"

text \<open>
  \<^verbatim>\<open>calculatePaymentTransaction\<close>. The scan is outside the \<^verbatim>\<open>try\<close>, so an exception
  of its Money arithmetic leaves the function; the body of \<^verbatim>\<open>Transaction.wrap\<close> is
  inside it, so an exception raised there is caught, nothing has been written, and the
  result is \<^verbatim>\<open>{ error: true }\<close>.
\<close>

definition calculatePaymentTransaction :: "basket \<Rightarrow> exn + (result \<times> basket)" where
  "calculatePaymentTransaction currentBasket =
     (case scanLoop (getPaymentInstruments currentBasket) 0
             (Money 0 (basketCurrencyCode currentBasket)) of
        Inl e \<Rightarrow> Inl e
      | Inr (giftCertTotal, nonGCPaymentInstrument) \<Rightarrow>
          (let orderTotal = totalGrossPrice currentBasket
           in case nonGCPaymentInstrument of
                None \<Rightarrow>
                  (if mvalue giftCertTotal \<ge> mvalue orderTotal
                   then Inr (\<lparr>error = False\<rparr>, currentBasket)
                   else Inr (\<lparr>error = True\<rparr>, currentBasket))
              | Some i \<Rightarrow>
                  (case getNonGiftCertificateAmount currentBasket of
                     Inl e \<Rightarrow> Inr (\<lparr>error = True\<rparr>, currentBasket)
                   | Inr amount \<Rightarrow>
                       (if mvalue amount \<le> 0
                        then Inr (\<lparr>error = False\<rparr>,
                                  setAmount currentBasket i (Money 0 (currencyCode amount)))
                        else Inr (\<lparr>error = False\<rparr>, setAmount currentBasket i amount)))))"

section \<open>Placing the order\<close>

text \<open>
  Modelled from the spec (section 6, Order Management): \<^verbatim>\<open>OrderMgr.placeOrder\<close> returns
  a status and \<^verbatim>\<open>OrderMgr.failOrder\<close> marks the order failed. \<open>status\<close> holds the two
  constants \<^verbatim>\<open>Status.OK\<close> and \<^verbatim>\<open>Status.ERROR\<close> of the platform's \<^verbatim>\<open>Status\<close> class.
  What the call hands back is a value of the language: a \<^verbatim>\<open>Status\<close> object that carries
  one of the two as its status, or one of the bare constants. The source compares the
  returned value with the constant \<^verbatim>\<open>Status.ERROR\<close> by strict equality (\<^verbatim>\<open>===\<close>),
  which holds of the constant itself and of no object.
\<close>

datatype status = OK | ERROR

datatype placeOrderAnswer = StatusConstant status | StatusObject status

definition statusOf :: "placeOrderAnswer \<Rightarrow> status" where
  "statusOf a = (case a of StatusConstant st \<Rightarrow> st | StatusObject st \<Rightarrow> st)"

definition nonSuccess :: "placeOrderAnswer \<Rightarrow> bool" where
  "nonSuccess a = (statusOf a = ERROR)"

datatype orderStatus = ORDER_STATUS_CREATED | ORDER_STATUS_NEW | ORDER_STATUS_FAILED

datatype confirmationStatus = CONFIRMATION_STATUS_NOTCONFIRMED | CONFIRMATION_STATUS_CONFIRMED

datatype exportStatus = EXPORT_STATUS_NOTEXPORTED | EXPORT_STATUS_READY

record order =
  orderNo :: string
  o_status :: orderStatus
  o_confirmationStatus :: confirmationStatus
  o_exportStatus :: exportStatus
  o_giftCertificateLineItems :: "giftCertificateLineItem list"

text \<open>
  The object returned by the fraud detection hook; the source reads its \<^verbatim>\<open>status\<close>.
\<close>

record fraudDetectionStatus =
  fds_status :: string

text \<open>
  The envelope \<^verbatim>\<open>sendGiftCertificateEmail\<close> builds (\<^verbatim>\<open>to\<close>, \<^verbatim>\<open>subject\<close>,
  \<^verbatim>\<open>from\<close>, \<^verbatim>\<open>type\<close>).
\<close>

datatype emailType = orderConfirmation

record emailObj =
  email_to :: string
  email_subject :: string
  email_from :: string
  email_type :: emailType

text \<open>
  What \<^verbatim>\<open>placeOrder\<close> does to the outside is recorded in the order they happen: the calls
  to the transaction API and to the order manager, the certificates issued and the mails
  handed to the mail helper. A certificate object is referred to by its position in the
  certificate store.
\<close>

datatype event =
    TransactionBegin
  | TransactionCommit
  | PlaceOrder
  | FailOrder
  | CreateGiftCertificate nat
  | SendEmail emailObj string nat

record world =
  w_order :: order
  w_certificates :: "giftCertificate list"
  w_log :: "event list"

text \<open>
  The collaborators' answers that the source does not determine: the status the order
  manager returns, whether the mail helper raises for a certificate, the code and currency
  the certificate manager gives a new certificate, the site's customer service address
  and the resource bundles.
\<close>

record env =
  placeOrderResult :: placeOrderAnswer
  sendEmailRaises :: "giftCertificate \<Rightarrow> bool"
  issueCode :: "nat \<Rightarrow> string"
  siteCurrencyCode :: string
  customerServiceEmail :: "string option"
  resourceMsg :: "string \<Rightarrow> string \<Rightarrow> string"

definition logEvent :: "event \<Rightarrow> world \<Rightarrow> world" where
  "logEvent e w = w\<lparr>w_log := w_log w @ [e]\<rparr>"

text \<open>
  Modelled from the spec (section 6, transaction scope provider): \<^verbatim>\<open>begin()\<close>,
  \<^verbatim>\<open>commit()\<close> and \<^verbatim>\<open>wrap(fn)\<close>, which encloses the callback in begin and commit.
  The model records the calls; it does not model what a rollback restores.
\<close>

definition Transaction_begin :: "world \<Rightarrow> world" where
  "Transaction_begin w = logEvent TransactionBegin w"

definition Transaction_commit :: "world \<Rightarrow> world" where
  "Transaction_commit w = logEvent TransactionCommit w"

definition Transaction_wrap :: "(world \<Rightarrow> world) \<Rightarrow> world \<Rightarrow> world" where
  "Transaction_wrap callback w = Transaction_commit (callback (Transaction_begin w))"

definition OrderMgr_placeOrder :: "env \<Rightarrow> world \<Rightarrow> placeOrderAnswer \<times> world" where
  "OrderMgr_placeOrder env w =
     (placeOrderResult env,
      logEvent PlaceOrder
        (if nonSuccess (placeOrderResult env) then w
         else w\<lparr>w_order := (w_order w)\<lparr>o_status := ORDER_STATUS_NEW\<rparr>\<rparr>))"

definition OrderMgr_failOrder :: "world \<Rightarrow> world" where
  "OrderMgr_failOrder w =
     logEvent FailOrder (w\<lparr>w_order := (w_order w)\<lparr>o_status := ORDER_STATUS_FAILED\<rparr>\<rparr>)"

definition setConfirmationStatus :: "confirmationStatus \<Rightarrow> world \<Rightarrow> world" where
  "setConfirmationStatus c w = w\<lparr>w_order := (w_order w)\<lparr>o_confirmationStatus := c\<rparr>\<rparr>"

definition setExportStatus :: "exportStatus \<Rightarrow> world \<Rightarrow> world" where
  "setExportStatus x w = w\<lparr>w_order := (w_order w)\<lparr>o_exportStatus := x\<rparr>\<rparr>"

text \<open>
  Modelled from the spec (section 6, Credential Issuance): \<^verbatim>\<open>createGiftCertificate(amount)\<close>
  issues a certificate of that initial balance; the setters write its metadata.
\<close>

definition GiftCertificateMgr_createGiftCertificate :: "env \<Rightarrow> rat \<Rightarrow> world \<Rightarrow> nat \<times> world" where
  "GiftCertificateMgr_createGiftCertificate env amount w =
     (let ref = length (w_certificates w);
          fresh = \<lparr>gc_code = issueCode env ref, gc_amount = amount,
                   gc_balance = Money amount (siteCurrencyCode env),
                   gc_recipientEmail = [], gc_recipientName = [], gc_senderName = [],
                   gc_message = [], gc_orderNo = None\<rparr>
      in (ref, logEvent (CreateGiftCertificate ref)
                 (w\<lparr>w_certificates := w_certificates w @ [fresh]\<rparr>)))"

definition updateCertificate ::
  "nat \<Rightarrow> (giftCertificate \<Rightarrow> giftCertificate) \<Rightarrow> world \<Rightarrow> world" where
  "updateCertificate ref f w =
     w\<lparr>w_certificates := (w_certificates w)[ref := f (w_certificates w ! ref)]\<rparr>"

text \<open>
  \<^verbatim>\<open>createGiftCertificateFromLineItem\<close>: create the certificate from the line item's
  net price value, then \<^verbatim>\<open>setRecipientEmail\<close>, \<^verbatim>\<open>setRecipientName\<close>,
  \<^verbatim>\<open>setSenderName\<close>, \<^verbatim>\<open>setMessage\<close> and \<^verbatim>\<open>setOrderNo\<close>.
\<close>

definition createGiftCertificateFromLineItem ::
  "env \<Rightarrow> giftCertificateLineItem \<Rightarrow> string \<Rightarrow> world \<Rightarrow> nat \<times> world" where
  "createGiftCertificateFromLineItem env giftCertificateLineItem orderNo' w =
     (let (giftCertificate, w1) =
            GiftCertificateMgr_createGiftCertificate env
              (mvalue (li_netPrice giftCertificateLineItem)) w;
          w2 = updateCertificate giftCertificate
                 (gc_recipientEmail_update (\<lambda>_. li_recipientEmail giftCertificateLineItem)) w1;
          w3 = updateCertificate giftCertificate
                 (gc_recipientName_update (\<lambda>_. li_recipientName giftCertificateLineItem)) w2;
          w4 = updateCertificate giftCertificate
                 (gc_senderName_update (\<lambda>_. li_senderName giftCertificateLineItem)) w3;
          w5 = updateCertificate giftCertificate
                 (gc_message_update (\<lambda>_. li_message giftCertificateLineItem)) w4;
          w6 = updateCertificate giftCertificate (gc_orderNo_update (\<lambda>_. Some orderNo')) w5
      in (giftCertificate, w6))"

text \<open>
  \<^verbatim>\<open>sendGiftCertificateEmail\<close> builds the envelope and calls the mail helper, which
  either takes the mail or raises.
\<close>

definition emailHelpers_sendEmail ::
  "env \<Rightarrow> emailObj \<Rightarrow> string \<Rightarrow> nat \<Rightarrow> world \<Rightarrow> exn option \<times> world" where
  "emailHelpers_sendEmail env emailObj' template context' w =
     (if sendEmailRaises env (w_certificates w ! context') then (Some MailError, w)
      else (None, logEvent (SendEmail emailObj' template context') w))"

definition sendGiftCertificateEmail :: "env \<Rightarrow> nat \<Rightarrow> world \<Rightarrow> exn option \<times> world" where
  "sendGiftCertificateEmail env GiftCertificate w =
     (let emailObj' =
            \<lparr>email_to = gc_recipientEmail (w_certificates w ! GiftCertificate),
             email_subject = resourceMsg env ''resource.ordergcemsg'' ''email'' @ '' '' @
                             gc_senderName (w_certificates w ! GiftCertificate),
             email_from = (case customerServiceEmail env of
                             None \<Rightarrow> ''no-reply@salesforce.com''
                           | Some a \<Rightarrow> if a = [] then ''no-reply@salesforce.com'' else a),
             email_type = orderConfirmation\<rparr>
      in emailHelpers_sendEmail env emailObj' ''mail/giftcert'' GiftCertificate w)"

text \<open>
  \<^verbatim>\<open>order.getGiftCertificateLineItems().toArray().map(...).forEach(...)\<close>: first every
  certificate is created, in line item order, then the mails are sent in the same order;
  an exception ends the \<^verbatim>\<open>forEach\<close>.
\<close>

fun mapCreate ::
  "env \<Rightarrow> giftCertificateLineItem list \<Rightarrow> world \<Rightarrow> nat list \<times> world" where
  "mapCreate env [] w = ([], w)"
| "mapCreate env (lineItem # rest) w =
     (let (giftCertificate, w1) =
            createGiftCertificateFromLineItem env lineItem (orderNo (w_order w)) w;
          (giftCertificates, w2) = mapCreate env rest w1
      in (giftCertificate # giftCertificates, w2))"

fun forEachSend :: "env \<Rightarrow> nat list \<Rightarrow> world \<Rightarrow> exn option \<times> world" where
  "forEachSend env [] w = (None, w)"
| "forEachSend env (giftCertificate # rest) w =
     (case sendGiftCertificateEmail env giftCertificate w of
        (Some e, w1) \<Rightarrow> (Some e, w1)
      | (None, w1) \<Rightarrow> forEachSend env rest w1)"

text \<open>
  \<^verbatim>\<open>placeOrder\<close>. \<open>placeOrder_try\<close> is the body of the \<^verbatim>\<open>try\<close> block: it returns
  the exception, if one was raised, with the state reached at that point. The \<^verbatim>\<open>catch\<close>
  block calls \<^verbatim>\<open>OrderMgr.failOrder\<close> inside \<^verbatim>\<open>Transaction.wrap\<close> and sets
  \<^verbatim>\<open>result.error\<close>.
\<close>

definition placeOrder_try :: "env \<Rightarrow> fraudDetectionStatus \<Rightarrow> world \<Rightarrow> exn option \<times> world" where
  "placeOrder_try env fraudDetectionStatus' w =
     (let w1 = Transaction_begin w;
          (placeOrderStatus, w2) = OrderMgr_placeOrder env w1
      in if placeOrderStatus = StatusConstant ERROR then (Some JSError, w2)
         else
           (let w3 = (if fds_status fraudDetectionStatus' = ''flag''
                      then setConfirmationStatus CONFIRMATION_STATUS_NOTCONFIRMED w2
                      else setConfirmationStatus CONFIRMATION_STATUS_CONFIRMED w2);
                w4 = setExportStatus EXPORT_STATUS_READY w3;
                (giftCertificates, w5) =
                   mapCreate env (o_giftCertificateLineItems (w_order w4)) w4
            in case forEachSend env giftCertificates w5 of
                 (Some e, w6) \<Rightarrow> (Some e, w6)
               | (None, w6) \<Rightarrow> (None, Transaction_commit w6)))"

definition placeOrder :: "env \<Rightarrow> fraudDetectionStatus \<Rightarrow> world \<Rightarrow> result \<times> world" where
  "placeOrder env fraudDetectionStatus' w =
     (case placeOrder_try env fraudDetectionStatus' w of
        (None, w') \<Rightarrow> (\<lparr>error = False\<rparr>, w')
      | (Some e, w') \<Rightarrow> (\<lparr>error = True\<rparr>, Transaction_wrap OrderMgr_failOrder w'))"

section \<open>The gift certificate purchase form\<close>

text \<open>
  A form field with its \<^verbatim>\<open>value\<close>, \<^verbatim>\<open>valid\<close> flag and \<^verbatim>\<open>error\<close> message, the
  \<^verbatim>\<open>giftcert.purchase\<close> form group, and the form with its own \<^verbatim>\<open>valid\<close> flag. The
  line item id of the form is \<open>None\<close> when the field holds \<^verbatim>\<open>null\<close>.
\<close>

record 'a formField =
  fvalue :: 'a
  fvalid :: bool
  ferror :: "string option"

record purchaseForm =
  pf_lineItemId :: "string option formField"
  pf_from :: "string formField"
  pf_recipient :: "string formField"
  pf_recipientEmail :: "string formField"
  pf_confirmRecipientEmail :: "string formField"
  pf_message :: "string formField"
  pf_amount :: "rat formField"

record giftCertForm =
  purchase :: purchaseForm
  valid :: bool

text \<open>
  The object \<^verbatim>\<open>getGiftLineItemObj\<close> builds to fill the form.
\<close>

record giftLineItemObj =
  obj_from :: string
  obj_lineItemId :: string
  obj_recipient :: string
  obj_recipientEmail :: string
  obj_confirmRecipientEmail :: string
  obj_message :: string
  obj_amount :: rat

text \<open>
  The platform's read-only \<^verbatim>\<open>price\<close> of a line item is not a stored field: it is the
  net price when the site prices net of tax and the gross price when it prices gross.
  The taxation policy is a parameter.
\<close>

definition li_price :: "bool \<Rightarrow> giftCertificateLineItem \<Rightarrow> money" where
  "li_price netTaxation li = (if netTaxation then li_netPrice li else li_grossPrice li)"

text \<open>
  \<^verbatim>\<open>getGiftCertificateLineItemByUUID\<close>: the first line item with the given UUID, or
  \<^verbatim>\<open>null\<close>. The returned object is a reference into the basket: its position.
\<close>

fun getGiftCertificateLineItemByUUID :: "giftCertificateLineItem list \<Rightarrow> string \<Rightarrow> nat option" where
  "getGiftCertificateLineItemByUUID [] uuid = None"
| "getGiftCertificateLineItemByUUID (item # rest) uuid =
     (if li_UUID item = uuid then Some 0
      else map_option Suc (getGiftCertificateLineItemByUUID rest uuid))"

definition getGiftLineItemObj :: "bool \<Rightarrow> giftCertificateLineItem \<Rightarrow> giftLineItemObj" where
  "getGiftLineItemObj netTaxation giftCertificateLineItem =
     \<lparr>obj_from = li_senderName giftCertificateLineItem,
      obj_lineItemId = li_UUID giftCertificateLineItem,
      obj_recipient = li_recipientName giftCertificateLineItem,
      obj_recipientEmail = li_recipientEmail giftCertificateLineItem,
      obj_confirmRecipientEmail = li_recipientEmail giftCertificateLineItem,
      obj_message = li_message giftCertificateLineItem,
      obj_amount = mvalue (li_price netTaxation giftCertificateLineItem)\<rparr>"

text \<open>
  \<^verbatim>\<open>updateGiftCert\<close>, with the session's purchase form as a parameter. The platform's
  \<^verbatim>\<open>empty\<close> holds of \<^verbatim>\<open>null\<close> and of the empty string. The assignments inside
  \<^verbatim>\<open>Transaction.wrap\<close> write the line item in place.
\<close>

definition updateGiftCert :: "purchaseForm \<Rightarrow> basket \<Rightarrow> nat option \<times> basket" where
  "updateGiftCert purchaseForm' currentBasket =
     (let giftCertificateLineItems' = giftCertificateLineItems currentBasket;
          giftCertificateLineItemUUID = fvalue (pf_lineItemId purchaseForm');
          giftCertificateLineItem =
            (case giftCertificateLineItemUUID of
               None \<Rightarrow> None
             | Some uuid \<Rightarrow>
                 if length giftCertificateLineItems' > 0 \<and> uuid \<noteq> []
                 then getGiftCertificateLineItemByUUID giftCertificateLineItems' uuid
                 else None)
      in case giftCertificateLineItem of
           None \<Rightarrow> (None, currentBasket)
         | Some i \<Rightarrow>
             (let li = giftCertificateLineItems' ! i;
                  amount = fvalue (pf_amount purchaseForm');
                  li' = li\<lparr>li_senderName := fvalue (pf_from purchaseForm'),
                           li_recipientName := fvalue (pf_recipient purchaseForm'),
                           li_recipientEmail := fvalue (pf_recipientEmail purchaseForm'),
                           li_message := fvalue (pf_message purchaseForm'),
                           li_basePrice := Money amount (currencyCode (li_basePrice li)),
                           li_grossPrice := Money amount (currencyCode (li_grossPrice li)),
                           li_netPrice := Money amount (currencyCode (li_netPrice li))\<rparr>
              in (Some i,
                  currentBasket\<lparr>giftCertificateLineItems := giftCertificateLineItems'[i := li']\<rparr>)))"

text \<open>
  \<^verbatim>\<open>processAddToBasket\<close>: the two checks, each writing \<^verbatim>\<open>valid\<close> and \<^verbatim>\<open>error\<close> on
  the fields it rejects and \<^verbatim>\<open>valid\<close> on the form. \<^verbatim>\<open>String.prototype.toLowerCase\<close> is
  the language's own case folding, over every cased letter of Unicode; it is the
  parameter \<open>toLowerCase\<close>, so what is proved holds whatever it computes.
\<close>

definition processAddToBasket ::
  "(string \<Rightarrow> string) \<Rightarrow> env \<Rightarrow> giftCertForm \<Rightarrow> giftCertForm" where
  "processAddToBasket toLowerCase env form =
     (let recipientEmailForm = pf_recipientEmail (purchase form);
          confirmRecipientEmailForm = pf_confirmRecipientEmail (purchase form);
          giftCertForm' =
            (if toLowerCase (fvalue recipientEmailForm) \<noteq>
                toLowerCase (fvalue confirmRecipientEmailForm)
             then form\<lparr>purchase := (purchase form)
                         \<lparr>pf_recipientEmail := recipientEmailForm\<lparr>fvalid := False\<rparr>,
                          pf_confirmRecipientEmail := confirmRecipientEmailForm
                            \<lparr>fvalid := False,
                             ferror := Some (resourceMsg env ''error.message.mismatch.email''
                                               ''forms'')\<rparr>\<rparr>,
                       valid := False\<rparr>
             else form);
          amountForm = pf_amount (purchase giftCertForm')
      in if fvalid amountForm \<and> (fvalue amountForm < 5 \<or> fvalue amountForm > 5000)
         then giftCertForm'\<lparr>purchase := (purchase giftCertForm')
                  \<lparr>pf_amount := amountForm
                     \<lparr>fvalid := False,
                      ferror := Some (resourceMsg env ''giftcert.amountparseerror'' ''forms'')\<rparr>\<rparr>,
                valid := False\<rparr>
         else giftCertForm')"

section \<open>The mini cart\<close>

text \<open>
  The handler appended to the \<^verbatim>\<open>MiniCart\<close> route (Cart.js), as a function of what
  \<^verbatim>\<open>BasketMgr.getCurrentBasket()\<close> returns; \<open>None\<close> is \<^verbatim>\<open>null\<close>. Reading a property
  of \<^verbatim>\<open>null\<close> raises a \<^verbatim>\<open>TypeError\<close>.
\<close>

record viewData =
  quantityTotal :: rat

definition MiniCart :: "basket option \<Rightarrow> exn + viewData" where
  "MiniCart currentBasket =
     (let quantityTotal' =
            (case currentBasket of Some b \<Rightarrow> productQuantityTotal b | None \<Rightarrow> 0)
      in case currentBasket of
           None \<Rightarrow> Inl TypeError
         | Some b \<Rightarrow>
             Inr \<lparr>quantityTotal =
                    (if length (giftCertificateLineItems b) > 0
                     then quantityTotal' + of_nat (length (giftCertificateLineItems b))
                     else quantityTotal')\<rparr>)"


section \<open>Vocabulary of the statements\<close>

text \<open>
  The summed redemption amount of the gift certificate instruments in a list, and the
  platform's guarantee that the basket's total and the amounts on its gift certificate
  instruments are in the basket's currency.
\<close>

definition sumRedeemed :: "paymentInstrument list \<Rightarrow> rat" where
  "sumRedeemed ps = sum_list (map (\<lambda>p. mvalue (transactionAmount p)) (filter isGiftCertificate ps))"

definition sameCurrency :: "basket \<Rightarrow> bool" where
  "sameCurrency b =
     (currencyCode (totalGrossPrice b) = basketCurrencyCode b \<and>
      list_all (\<lambda>p. currencyCode (transactionAmount p) = basketCurrencyCode b)
        (filter isGiftCertificate (paymentInstruments b)))"

definition remainingOrderBalance :: "basket \<Rightarrow> string \<Rightarrow> rat" where
  "remainingOrderBalance b code =
     mvalue (totalGrossPrice b) - sumRedeemed (filter (\<lambda>p. \<not> boundTo code p) (paymentInstruments b))"

definition redemption :: "basket \<Rightarrow> giftCertificate \<Rightarrow> money" where
  "redemption b gc =
     (if remainingOrderBalance b (gc_code gc) < mvalue (gc_balance gc)
      then Money (remainingOrderBalance b (gc_code gc)) (basketCurrencyCode b)
      else gc_balance gc)"

definition giftCertificateInstrument :: "string \<Rightarrow> money \<Rightarrow> paymentInstrument" where
  "giftCertificateInstrument code amount =
     \<lparr>paymentMethod = METHOD_GIFT_CERTIFICATE, giftCertificateCode = Some code,
      transactionAmount = amount\<rparr>"

text \<open>
  The position of the first instrument that is not a gift certificate instrument, and the
  amount left open after all gift certificate redemptions.
\<close>

definition firstConventional :: "paymentInstrument list \<Rightarrow> nat" where
  "firstConventional ps = length (takeWhile isGiftCertificate ps)"

definition openAmount :: "basket \<Rightarrow> rat" where
  "openAmount b = mvalue (totalGrossPrice b) - sumRedeemed (paymentInstruments b)"

text \<open>
  For the statements about \<^verbatim>\<open>placeOrder\<close>: the certificate issued for a line item, the
  certificates issued for a list of line items from store position \<open>n\<close> on, the mail sent
  for a certificate, whether the mail helper takes it, and the certificates and mails a
  log records.
\<close>

definition certificateFor :: "env \<Rightarrow> string \<Rightarrow> nat \<Rightarrow> giftCertificateLineItem \<Rightarrow> giftCertificate" where
  "certificateFor env no ref li =
     \<lparr>gc_code = issueCode env ref, gc_amount = mvalue (li_netPrice li),
      gc_balance = Money (mvalue (li_netPrice li)) (siteCurrencyCode env),
      gc_recipientEmail = li_recipientEmail li, gc_recipientName = li_recipientName li,
      gc_senderName = li_senderName li, gc_message = li_message li, gc_orderNo = Some no\<rparr>"

primrec issued :: "env \<Rightarrow> string \<Rightarrow> nat \<Rightarrow> giftCertificateLineItem list \<Rightarrow> giftCertificate list" where
  "issued env no n [] = []"
| "issued env no n (li # rest) = certificateFor env no n li # issued env no (Suc n) rest"

definition emailFor :: "env \<Rightarrow> giftCertificate \<Rightarrow> emailObj" where
  "emailFor env g =
     \<lparr>email_to = gc_recipientEmail g,
      email_subject = resourceMsg env ''resource.ordergcemsg'' ''email'' @ '' '' @ gc_senderName g,
      email_from = (case customerServiceEmail env of
                      None \<Rightarrow> ''no-reply@salesforce.com''
                    | Some a \<Rightarrow> if a = [] then ''no-reply@salesforce.com'' else a),
      email_type = orderConfirmation\<rparr>"

definition sendEvent :: "env \<Rightarrow> giftCertificate list \<Rightarrow> nat \<Rightarrow> event" where
  "sendEvent env certs ref = SendEmail (emailFor env (certs ! ref)) ''mail/giftcert'' ref"

definition deliverable :: "env \<Rightarrow> giftCertificate list \<Rightarrow> nat \<Rightarrow> bool" where
  "deliverable env certs ref = (\<not> sendEmailRaises env (certs ! ref))"

fun notified :: "event list \<Rightarrow> nat list" where
  "notified [] = []"
| "notified (SendEmail m t g # es) = g # notified es"
| "notified (e # es) = notified es"

fun created :: "event list \<Rightarrow> nat list" where
  "created [] = []"
| "created (CreateGiftCertificate g # es) = g # created es"
| "created (e # es) = created es"

definition placedOrder :: "fraudDetectionStatus \<Rightarrow> order \<Rightarrow> order" where
  "placedOrder fds ord =
     ord\<lparr>o_status := ORDER_STATUS_NEW,
         o_confirmationStatus :=
           (if fds_status fds = ''flag'' then CONFIRMATION_STATUS_NOTCONFIRMED
            else CONFIRMATION_STATUS_CONFIRMED),
         o_exportStatus := EXPORT_STATUS_READY\<rparr>"

definition proceededOrder :: "env \<Rightarrow> fraudDetectionStatus \<Rightarrow> order \<Rightarrow> order" where
  "proceededOrder env fds ord =
     (if nonSuccess (placeOrderResult env) then ord else ord\<lparr>o_status := ORDER_STATUS_NEW\<rparr>)
       \<lparr>o_confirmationStatus :=
          (if fds_status fds = ''flag'' then CONFIRMATION_STATUS_NOTCONFIRMED
           else CONFIRMATION_STATUS_CONFIRMED),
        o_exportStatus := EXPORT_STATUS_READY\<rparr>"

definition newRefs :: "world \<Rightarrow> nat list" where
  "newRefs w =
     [length (w_certificates w) ..<
      length (w_certificates w) + length (o_giftCertificateLineItems (w_order w))]"

definition certificatesAfter :: "env \<Rightarrow> world \<Rightarrow> giftCertificate list" where
  "certificatesAfter env w =
     w_certificates w @
     issued env (orderNo (w_order w)) (length (w_certificates w))
       (o_giftCertificateLineItems (w_order w))"

text \<open>
  The two conditions \<^verbatim>\<open>processAddToBasket\<close> tests: the two addresses differ after
  the language's \<^verbatim>\<open>toLowerCase\<close> (the parameter), and the amount field is valid with a
  value below 5 or above 5000.
\<close>

definition emailMismatch :: "(string \<Rightarrow> string) \<Rightarrow> giftCertForm \<Rightarrow> bool" where
  "emailMismatch toLowerCase f =
     (toLowerCase (fvalue (pf_recipientEmail (purchase f))) \<noteq>
      toLowerCase (fvalue (pf_confirmRecipientEmail (purchase f))))"

definition amountOutOfRange :: "giftCertForm \<Rightarrow> bool" where
  "amountOutOfRange f =
     (fvalid (pf_amount (purchase f)) \<and>
      (fvalue (pf_amount (purchase f)) < 5 \<or> fvalue (pf_amount (purchase f)) > 5000))"


section \<open>Sample baskets and certificates\<close>

definition example_basket :: basket where
  "example_basket =
     \<lparr>basketCurrencyCode = ''USD'', totalGrossPrice = Money 10 ''USD'',
      paymentInstruments =
        [giftCertificateInstrument ''B'' (Money 3 ''USD''),
         giftCertificateInstrument ''A'' (Money 10 ''USD''),
         \<lparr>paymentMethod = ''CREDIT_CARD'', giftCertificateCode = None,
          transactionAmount = Money 0 ''USD''\<rparr>],
      giftCertificateLineItems = [], productQuantityTotal = 1\<rparr>"

definition example_certificate :: giftCertificate where
  "example_certificate =
     \<lparr>gc_code = ''B'', gc_amount = 25, gc_balance = Money 25 ''USD'',
      gc_recipientEmail = ''r@example.com'', gc_recipientName = ''R'', gc_senderName = ''S'',
      gc_message = ''hi'', gc_orderNo = None\<rparr>"

definition overpaid_basket :: basket where
  "overpaid_basket =
     \<lparr>basketCurrencyCode = ''USD'', totalGrossPrice = Money 10 ''USD'',
      paymentInstruments = [giftCertificateInstrument ''A'' (Money 15 ''USD'')],
      giftCertificateLineItems = [], productQuantityTotal = 1\<rparr>"

definition short_basket :: basket where
  "short_basket =
     \<lparr>basketCurrencyCode = ''USD'', totalGrossPrice = Money 10 ''USD'',
      paymentInstruments =
        [giftCertificateInstrument ''A'' (Money 4 ''USD''),
         giftCertificateInstrument ''B'' (Money 3 ''USD'')],
      giftCertificateLineItems = [], productQuantityTotal = 1\<rparr>"

definition card :: "rat \<Rightarrow> paymentInstrument" where
  "card v = \<lparr>paymentMethod = ''CREDIT_CARD'', giftCertificateCode = None,
             transactionAmount = Money v ''USD''\<rparr>"

definition mixed_basket :: basket where
  "mixed_basket =
     \<lparr>basketCurrencyCode = ''USD'', totalGrossPrice = Money 50 ''USD'',
      paymentInstruments =
        [giftCertificateInstrument ''A'' (Money 10 ''USD''),
         card 0,
         giftCertificateInstrument ''B'' (Money 5 ''USD'')],
      giftCertificateLineItems = [], productQuantityTotal = 2\<rparr>"

definition sample_env :: "placeOrderAnswer \<Rightarrow> (giftCertificate \<Rightarrow> bool) \<Rightarrow> env" where
  "sample_env st raises =
     \<lparr>placeOrderResult = st, sendEmailRaises = raises,
      issueCode = (\<lambda>n. ''GC'' @ replicate n (CHR ''I'')), siteCurrencyCode = ''USD'',
      customerServiceEmail = None, resourceMsg = (\<lambda>key bundle. key)\<rparr>"

definition quiet_env :: env where
  "quiet_env = sample_env (StatusObject OK) (\<lambda>g. False)"

definition error_status_env :: env where
  "error_status_env = sample_env (StatusObject ERROR) (\<lambda>g. False)"

definition no_mail_env :: env where
  "no_mail_env = sample_env (StatusObject OK) (\<lambda>g. True)"

definition second_mail_fails_env :: env where
  "second_mail_fails_env = sample_env (StatusObject OK) (\<lambda>g. gc_amount g = 10)"

definition sample_lineItem :: "string \<Rightarrow> rat \<Rightarrow> giftCertificateLineItem" where
  "sample_lineItem uuid v =
     \<lparr>li_UUID = uuid, li_senderName = ''Ann'', li_recipientName = ''Bob'',
      li_recipientEmail = ''bob@example.com'', li_message = ''Enjoy'',
      li_basePrice = Money v ''USD'', li_grossPrice = Money v ''USD'',
      li_netPrice = Money v ''USD''\<rparr>"

definition sample_world :: world where
  "sample_world =
     \<lparr>w_order =
        \<lparr>orderNo = ''00000001'', o_status = ORDER_STATUS_CREATED,
         o_confirmationStatus = CONFIRMATION_STATUS_NOTCONFIRMED,
         o_exportStatus = EXPORT_STATUS_NOTEXPORTED,
         o_giftCertificateLineItems = [sample_lineItem ''u1'' 25, sample_lineItem ''u2'' 10]\<rparr>,
      w_certificates = [], w_log = []\<rparr>"

definition sample_fraud :: fraudDetectionStatus where
  "sample_fraud = \<lparr>fds_status = ''success''\<rparr>"

definition sample_mail :: emailObj where
  "sample_mail =
     \<lparr>email_to = ''bob@example.com'', email_subject = ''resource.ordergcemsg Ann'',
      email_from = ''no-reply@salesforce.com'', email_type = orderConfirmation\<rparr>"

definition edit_form :: purchaseForm where
  "edit_form =
     \<lparr>pf_lineItemId = \<lparr>fvalue = Some ''u2'', fvalid = True, ferror = None\<rparr>,
      pf_from = \<lparr>fvalue = ''Carol'', fvalid = True, ferror = None\<rparr>,
      pf_recipient = \<lparr>fvalue = ''Dave'', fvalid = True, ferror = None\<rparr>,
      pf_recipientEmail = \<lparr>fvalue = ''Dave@Example.com'', fvalid = True, ferror = None\<rparr>,
      pf_confirmRecipientEmail = \<lparr>fvalue = ''dave@example.COM'', fvalid = True, ferror = None\<rparr>,
      pf_message = \<lparr>fvalue = ''Happy birthday'', fvalid = True, ferror = None\<rparr>,
      pf_amount = \<lparr>fvalue = 40, fvalid = True, ferror = None\<rparr>\<rparr>"

definition accent_form :: purchaseForm where
  "accent_form =
     edit_form
       \<lparr>pf_recipientEmail :=
          \<lparr>fvalue = CHR 0xC9 # ''ric@example.com'', fvalid = True, ferror = None\<rparr>,
        pf_confirmRecipientEmail :=
          \<lparr>fvalue = CHR 0xE9 # ''ric@example.com'', fvalid = True, ferror = None\<rparr>\<rparr>"

definition sample_toLowerCase :: "string \<Rightarrow> string" where
  "sample_toLowerCase s =
     map (\<lambda>c. case map_of (zip (''ABCDEFGHIJKLMNOPQRSTUVWXYZ'' @ [CHR 0xC9])
                                (''abcdefghijklmnopqrstuvwxyz'' @ [CHR 0xE9])) c of
                 Some l \<Rightarrow> l
               | None \<Rightarrow> c) s"

definition gift_basket :: basket where
  "gift_basket =
     \<lparr>basketCurrencyCode = ''USD'', totalGrossPrice = Money 35 ''USD'',
      paymentInstruments = [],
      giftCertificateLineItems = [sample_lineItem ''u1'' 25, sample_lineItem ''u2'' 10],
      productQuantityTotal = 0\<rparr>"


section \<open>Properties\<close>

subsection \<open>The loops of the redemption allocator\<close>

lemma removeLoop_append:
  "list_all (\<lambda>z. \<not> P z) zs \<Longrightarrow> paymentInstruments b = zs @ xs \<Longrightarrow>
   removeLoop (filter P xs) b = b\<lparr>paymentInstruments := zs @ filter (\<lambda>p. \<not> P p) xs\<rparr>"
proof (induction xs arbitrary: zs b)
  case Nil
  then show ?case by simp
next
  case (Cons x xs)
  show ?case
  proof (cases "P x")
    case True
    with Cons.prems(1) have "x \<notin> set zs" by (auto simp: list_all_iff)
    then have r: "remove1 x (zs @ x # xs) = zs @ xs" by (simp add: remove1_append)
    have "removeLoop (filter P xs) (removePaymentInstrument b x)
            = (removePaymentInstrument b x)\<lparr>paymentInstruments := zs @ filter (\<lambda>p. \<not> P p) xs\<rparr>"
      by (rule Cons.IH[OF Cons.prems(1)]) (simp add: removePaymentInstrument_def Cons.prems(2) r)
    with True show ?thesis by (simp add: removePaymentInstrument_def)
  next
    case False
    with Cons.prems(1) have "list_all (\<lambda>z. \<not> P z) (zs @ [x])" by simp
    from Cons.IH[OF this, of b] Cons.prems(2) False show ?thesis by simp
  qed
qed

lemma removeLoop_filter:
  "removeLoop (filter P (paymentInstruments b)) b =
     b\<lparr>paymentInstruments := filter (\<lambda>p. \<not> P p) (paymentInstruments b)\<rparr>"
  using removeLoop_append[of P "[]" b "paymentInstruments b"] by simp

lemma sumLoop_sameCurrency:
  "list_all (\<lambda>p. currencyCode (transactionAmount p) = c) ps \<Longrightarrow>
   sumLoop ps (Money v c) = Inr (Money (v + sum_list (map (\<lambda>p. mvalue (transactionAmount p)) ps)) c)"
  by (induction ps arbitrary: v) (auto simp: Money_add_def Money_def)

subsection \<open>The redemption allocator in closed form\<close>

lemma sameCurrency_rest:
  "sameCurrency b \<Longrightarrow>
   list_all (\<lambda>p. currencyCode (transactionAmount p) = basketCurrencyCode b)
     (filter isGiftCertificate (filter Q (paymentInstruments b)))"
  by (auto simp: sameCurrency_def list_all_iff)

lemma sameCurrency_total:
  "sameCurrency b \<Longrightarrow> currencyCode (totalGrossPrice b) = basketCurrencyCode b"
  by (simp add: sameCurrency_def)

lemma createGiftCertificatePaymentInstrument_eq:
  assumes tot: "currencyCode (totalGrossPrice b) = basketCurrencyCode b"
    and rest: "list_all (\<lambda>p. currencyCode (transactionAmount p) = basketCurrencyCode b)
                 (filter isGiftCertificate
                    (filter (\<lambda>p. \<not> boundTo (gc_code gc) p) (paymentInstruments b)))"
  shows "createGiftCertificatePaymentInstrument b gc =
           Inr (giftCertificateInstrument (gc_code gc) (redemption b gc),
                b\<lparr>paymentInstruments :=
                    filter (\<lambda>p. \<not> boundTo (gc_code gc) p) (paymentInstruments b)
                    @ [giftCertificateInstrument (gc_code gc) (redemption b gc)]\<rparr>)"
proof -
  let ?code = "gc_code gc"
  let ?rest = "filter (\<lambda>p. \<not> boundTo ?code p) (paymentInstruments b)"
  let ?b1 = "b\<lparr>paymentInstruments := ?rest\<rparr>"
  have rm: "removeLoop (getGiftCertificatePaymentInstrumentsFor b ?code) b = ?b1"
    by (simp add: getGiftCertificatePaymentInstrumentsFor_def removeLoop_filter)
  have sm: "sumLoop (getGiftCertificatePaymentInstruments ?b1) (Money 0 (basketCurrencyCode ?b1))
              = Inr (Money (sumRedeemed ?rest) (basketCurrencyCode b))"
    using sumLoop_sameCurrency[OF rest, of 0]
    by (simp add: getGiftCertificatePaymentInstruments_def sumRedeemed_def)
  have sb: "Money_subtract (totalGrossPrice ?b1) (Money (sumRedeemed ?rest) (basketCurrencyCode b))
              = Inr (Money (remainingOrderBalance b ?code) (basketCurrencyCode b))"
    using tot by (simp add: Money_subtract_def Money_def remainingOrderBalance_def)
  have ml: "Money_less (Money (remainingOrderBalance b ?code) (basketCurrencyCode b)) (gc_balance gc)
              = (remainingOrderBalance b ?code < mvalue (gc_balance gc))"
    by (simp add: Money_less_def Money_def)
  have "createGiftCertificatePaymentInstrument b gc =
          Inr (Basket_createGiftCertificatePaymentInstrument ?b1 ?code (redemption b gc))"
    by (simp only: createGiftCertificatePaymentInstrument_def Let_def rm sm sb ml sum.case
          redemption_def)
  then show ?thesis
    by (simp add: Basket_createGiftCertificatePaymentInstrument_def giftCertificateInstrument_def
          Let_def)
qed

lemma boundTo_giftCertificateInstrument [simp]:
  "boundTo code (giftCertificateInstrument code' amount) = (code = code')"
  by (auto simp: boundTo_def isGiftCertificate_def giftCertificateInstrument_def)

lemma filter_rest_new:
  "filter (\<lambda>p. \<not> boundTo code p)
     (filter (\<lambda>p. \<not> boundTo code p) ps @ [giftCertificateInstrument code amount])
   = filter (\<lambda>p. \<not> boundTo code p) ps"
  by simp

lemma filter_bound_new:
  "filter (boundTo code)
     (filter (\<lambda>p. \<not> boundTo code p) ps @ [giftCertificateInstrument code amount])
   = [giftCertificateInstrument code amount]"
  by (simp add: filter_empty_conv)

lemma example_basket_sameCurrency: "sameCurrency example_basket"
  by (simp add: sameCurrency_def example_basket_def giftCertificateInstrument_def Money_def
      isGiftCertificate_def METHOD_GIFT_CERTIFICATE_def)

lemma example_remaining: "remainingOrderBalance example_basket ''B'' = 0"
  by (simp add: remainingOrderBalance_def sumRedeemed_def example_basket_def
      giftCertificateInstrument_def Money_def boundTo_def
      isGiftCertificate_def METHOD_GIFT_CERTIFICATE_def)

subsection \<open>C1: the amount a gift certificate redeems\<close>

text \<open>
  Claim C1, as the code has it. On a basket whose amounts are in the basket's currency,
  \<^verbatim>\<open>createGiftCertificatePaymentInstrument\<close> always returns: it removes the instruments
  bound to the certificate's code, appends exactly one new gift certificate instrument
  bound to that code, and the new instrument's amount is the smaller of the certificate's
  balance and the remaining order balance (the basket total minus the redemptions of the
  gift certificate instruments left after the removal). When that remaining balance is
  zero and the certificate's balance is not negative, the instrument is created with
  amount zero. The code has no clamp at zero: a negative remaining balance is redeemed
  as it is (see the counterexample below).
\<close>

theorem createGiftCertificatePaymentInstrument_amount:
  assumes "sameCurrency b"
  shows "\<exists>newPI.
           createGiftCertificatePaymentInstrument b gc =
             Inr (newPI,
                  b\<lparr>paymentInstruments :=
                      filter (\<lambda>p. \<not> boundTo (gc_code gc) p) (paymentInstruments b) @ [newPI]\<rparr>)
           \<and> boundTo (gc_code gc) newPI
           \<and> mvalue (transactionAmount newPI) =
               min (mvalue (gc_balance gc)) (remainingOrderBalance b (gc_code gc))
           \<and> (remainingOrderBalance b (gc_code gc) = 0 \<and> 0 \<le> mvalue (gc_balance gc)
                \<longrightarrow> mvalue (transactionAmount newPI) = 0)"
proof -
  let ?p = "giftCertificateInstrument (gc_code gc) (redemption b gc)"
  have v: "mvalue (transactionAmount ?p) =
             min (mvalue (gc_balance gc)) (remainingOrderBalance b (gc_code gc))"
    by (simp add: giftCertificateInstrument_def redemption_def Money_def min_def)
  have bt: "boundTo (gc_code gc) ?p"
    by (simp add: boundTo_def isGiftCertificate_def giftCertificateInstrument_def)
  from createGiftCertificatePaymentInstrument_eq[OF sameCurrency_total[OF assms] sameCurrency_rest[OF assms], of gc] v bt
  show ?thesis by (intro exI[of _ ?p]) (simp add: min_def)
qed

text \<open>
  The theorem at a sample basket: total 10 USD, certificate A redeemed for 10, certificate
  B (balance 25) applied again. The old B instrument goes, the remaining balance is 0 and
  the new instrument carries 0.
\<close>

theorem createGiftCertificatePaymentInstrument_amount_witness:
  "sameCurrency example_basket \<and>
   remainingOrderBalance example_basket (gc_code example_certificate) = 0 \<and>
   0 \<le> mvalue (gc_balance example_certificate) \<and>
   (\<exists>newPI b'. createGiftCertificatePaymentInstrument example_basket example_certificate
        = Inr (newPI, b') \<and> mvalue (transactionAmount newPI) = 0)"
proof -
  have r: "remainingOrderBalance example_basket (gc_code example_certificate) = 0"
    using example_remaining by (simp add: example_certificate_def)
  have nn: "0 \<le> mvalue (gc_balance example_certificate)"
    by (simp add: example_certificate_def Money_def)
  from createGiftCertificatePaymentInstrument_amount[OF example_basket_sameCurrency,
         of example_certificate]
  obtain newPI where
    "createGiftCertificatePaymentInstrument example_basket example_certificate =
       Inr (newPI, example_basket\<lparr>paymentInstruments :=
              filter (\<lambda>p. \<not> boundTo (gc_code example_certificate) p)
                (paymentInstruments example_basket) @ [newPI]\<rparr>)"
    and "remainingOrderBalance example_basket (gc_code example_certificate) = 0
           \<and> 0 \<le> mvalue (gc_balance example_certificate)
         \<longrightarrow> mvalue (transactionAmount newPI) = 0"
    by blast
  with r nn example_basket_sameCurrency show ?thesis by blast
qed

text \<open>
  C1 as stated promises amount zero whenever the remaining order balance is negative or
  zero. On a basket of total 10 USD on which certificate A already redeems 15 (the
  total dropped after A was applied), applying certificate B with balance 25 creates an
  instrument of amount -5.
\<close>

theorem createGiftCertificatePaymentInstrument_negative_counterexample:
  "remainingOrderBalance overpaid_basket (gc_code example_certificate) = - 5 \<and>
   createGiftCertificatePaymentInstrument overpaid_basket example_certificate =
     Inr (giftCertificateInstrument ''B'' (Money (- 5) ''USD''),
          overpaid_basket\<lparr>paymentInstruments :=
            [giftCertificateInstrument ''A'' (Money 15 ''USD''),
             giftCertificateInstrument ''B'' (Money (- 5) ''USD'')]\<rparr>) \<and>
   mvalue (transactionAmount (giftCertificateInstrument ''B'' (Money (- 5) ''USD''))) \<noteq> 0"
  by (simp add: createGiftCertificatePaymentInstrument_def overpaid_basket_def
      example_certificate_def getGiftCertificatePaymentInstrumentsFor_def
      getGiftCertificatePaymentInstruments_def giftCertificateInstrument_def boundTo_def
      isGiftCertificate_def METHOD_GIFT_CERTIFICATE_def Money_def Money_add_def
      Money_subtract_def Money_less_def Basket_createGiftCertificatePaymentInstrument_def
      remainingOrderBalance_def sumRedeemed_def Let_def)

subsection \<open>C4: applying a certificate twice\<close>

text \<open>
  Claim C4. Applying the same certificate a second time succeeds as the first time did,
  and afterwards the basket holds exactly one gift certificate instrument bound to the
  certificate's code, with the amount of the single application; the instruments not
  bound to that code are the ones the basket had before.
\<close>

theorem createGiftCertificatePaymentInstrument_idempotent:
  assumes "sameCurrency b"
  shows "\<exists>p1 b1 p2 b2.
           createGiftCertificatePaymentInstrument b gc = Inr (p1, b1) \<and>
           createGiftCertificatePaymentInstrument b1 gc = Inr (p2, b2) \<and>
           getGiftCertificatePaymentInstrumentsFor b2 (gc_code gc) = [p2] \<and>
           transactionAmount p2 = transactionAmount p1 \<and>
           filter (\<lambda>p. \<not> boundTo (gc_code gc) p) (paymentInstruments b2) =
             filter (\<lambda>p. \<not> boundTo (gc_code gc) p) (paymentInstruments b)"
proof -
  let ?code = "gc_code gc"
  let ?rest = "filter (\<lambda>p. \<not> boundTo ?code p) (paymentInstruments b)"
  let ?p1 = "giftCertificateInstrument ?code (redemption b gc)"
  let ?b1 = "b\<lparr>paymentInstruments := ?rest @ [?p1]\<rparr>"
  have first: "createGiftCertificatePaymentInstrument b gc = Inr (?p1, ?b1)"
    by (rule createGiftCertificatePaymentInstrument_eq
          [OF sameCurrency_total[OF assms] sameCurrency_rest[OF assms]])
  have rest1: "filter (\<lambda>p. \<not> boundTo ?code p) (paymentInstruments ?b1) = ?rest"
    by (simp add: filter_rest_new)
  have same: "redemption ?b1 gc = redemption b gc"
    by (simp add: redemption_def remainingOrderBalance_def)
  have tot1: "currencyCode (totalGrossPrice ?b1) = basketCurrencyCode ?b1"
    using sameCurrency_total[OF assms] by simp
  have cur1: "list_all (\<lambda>p. currencyCode (transactionAmount p) = basketCurrencyCode ?b1)
                (filter isGiftCertificate
                   (filter (\<lambda>p. \<not> boundTo ?code p) (paymentInstruments ?b1)))"
    using sameCurrency_rest[OF assms, of "\<lambda>p. \<not> boundTo ?code p"] by (simp only: rest1) simp
  have second: "createGiftCertificatePaymentInstrument ?b1 gc = Inr (?p1, ?b1)"
    using createGiftCertificatePaymentInstrument_eq[OF tot1 cur1]
    by (simp only: rest1 same) simp
  have one: "getGiftCertificatePaymentInstrumentsFor ?b1 ?code = [?p1]"
    by (simp add: getGiftCertificatePaymentInstrumentsFor_def filter_empty_conv)
  from first second one rest1 show ?thesis by blast
qed

text \<open>
  The theorem at the sample basket, which already carries an instrument of certificate B
  before the first of the two applications.
\<close>

theorem createGiftCertificatePaymentInstrument_idempotent_witness:
  "sameCurrency example_basket \<and>
   (\<exists>p1 b1 p2 b2.
      createGiftCertificatePaymentInstrument example_basket example_certificate = Inr (p1, b1) \<and>
      createGiftCertificatePaymentInstrument b1 example_certificate = Inr (p2, b2) \<and>
      getGiftCertificatePaymentInstrumentsFor b2 ''B'' = [p2] \<and>
      transactionAmount p2 = transactionAmount p1)"
proof -
  have c: "gc_code example_certificate = ''B''"
    by (simp add: example_certificate_def)
  from createGiftCertificatePaymentInstrument_idempotent[OF example_basket_sameCurrency,
         of example_certificate]
  show ?thesis
    unfolding c using example_basket_sameCurrency by blast
qed

subsection \<open>The loops of the balancer\<close>

lemma scanLoop_sameCurrency:
  "list_all (\<lambda>p. currencyCode (transactionAmount p) = c) (filter isGiftCertificate ps) \<Longrightarrow>
   scanLoop ps i (Money v c) =
     Inr (Money (v + sumRedeemed (takeWhile isGiftCertificate ps)) c,
          if list_all isGiftCertificate ps then None else Some (i + firstConventional ps))"
  by (induction ps arbitrary: i v)
     (auto simp: Money_add_def Money_def sumRedeemed_def firstConventional_def isGiftCertificate_def)

lemma takeWhile_all: "list_all P ps \<Longrightarrow> takeWhile P ps = ps"
  by (induction ps) auto

lemma getNonGiftCertificateAmount_sameCurrency:
  "sameCurrency b \<Longrightarrow> getNonGiftCertificateAmount b = Inr (Money (openAmount b) (basketCurrencyCode b))"
  using sumLoop_sameCurrency[of "basketCurrencyCode b" "filter isGiftCertificate (paymentInstruments b)" 0]
  by (simp add: getNonGiftCertificateAmount_def getGiftCertificatePaymentInstruments_def
      sameCurrency_def Money_subtract_def Money_def openAmount_def sumRedeemed_def)

lemma firstConventional_props:
  "\<not> list_all isGiftCertificate ps \<Longrightarrow>
   firstConventional ps < length ps \<and> \<not> isGiftCertificate (ps ! firstConventional ps)"
  unfolding firstConventional_def
  by (induction ps) auto

lemma filter_update_other:
  "i < length ps \<Longrightarrow> \<not> P (ps ! i) \<Longrightarrow> \<not> P x \<Longrightarrow> filter P (ps[i := x]) = filter P ps"
  by (induction ps arbitrary: i) (auto split: nat.splits)

lemmas sample_defs =
  giftCertificateInstrument_def card_def Money_def isGiftCertificate_def
  METHOD_GIFT_CERTIFICATE_def sameCurrency_def sumRedeemed_def

subsection \<open>C5: no conventional instrument\<close>

text \<open>
  Claim C5. On a basket all of whose payment instruments are gift certificate instruments,
  \<^verbatim>\<open>calculatePaymentTransaction\<close> returns \<^verbatim>\<open>{ error: false }\<close> exactly when the summed
  redemption amount is at least the basket's total gross price, \<^verbatim>\<open>{ error: true }\<close>
  otherwise, and hands the basket back as it was.
\<close>

theorem calculatePaymentTransaction_no_conventional:
  assumes "sameCurrency b" and "list_all isGiftCertificate (paymentInstruments b)"
  shows "calculatePaymentTransaction b =
           Inr (\<lparr>error = \<not> (sumRedeemed (paymentInstruments b) \<ge> mvalue (totalGrossPrice b))\<rparr>, b)"
proof -
  have cur: "list_all (\<lambda>p. currencyCode (transactionAmount p) = basketCurrencyCode b)
               (filter isGiftCertificate (paymentInstruments b))"
    using assms(1) by (simp add: sameCurrency_def)
  have "scanLoop (getPaymentInstruments b) 0 (Money 0 (basketCurrencyCode b)) =
          Inr (Money (sumRedeemed (paymentInstruments b)) (basketCurrencyCode b), None)"
    using scanLoop_sameCurrency[OF cur, of 0 0] assms(2)
    by (simp add: getPaymentInstruments_def takeWhile_all)
  then show ?thesis
    by (simp add: calculatePaymentTransaction_def Money_def)
qed

text \<open>
  The theorem at a basket of total 10 USD with redemptions of 4 and 3: the result is
  \<^verbatim>\<open>{ error: true }\<close>.
\<close>

theorem calculatePaymentTransaction_no_conventional_witness:
  "sameCurrency short_basket \<and> list_all isGiftCertificate (paymentInstruments short_basket) \<and>
   sumRedeemed (paymentInstruments short_basket) = 7 \<and>
   mvalue (totalGrossPrice short_basket) = 10 \<and>
   calculatePaymentTransaction short_basket = Inr (\<lparr>error = True\<rparr>, short_basket)"
proof -
  have s: "sameCurrency short_basket"
    by (simp add: short_basket_def sample_defs)
  have a: "list_all isGiftCertificate (paymentInstruments short_basket)"
    by (simp add: short_basket_def sample_defs)
  have v: "sumRedeemed (paymentInstruments short_basket) = 7"
    by (simp add: short_basket_def sample_defs)
  have t: "mvalue (totalGrossPrice short_basket) = 10"
    by (simp add: short_basket_def sample_defs)
  from calculatePaymentTransaction_no_conventional[OF s a] s a v t
  show ?thesis by simp
qed

subsection \<open>C6: the conventional instrument's charge\<close>

text \<open>
  Claim C6. On a basket with at least one instrument that is not a gift certificate
  instrument, \<^verbatim>\<open>calculatePaymentTransaction\<close> returns \<^verbatim>\<open>{ error: false }\<close> and the
  basket differs from the given one only in the transaction amount of the first such
  instrument: the total gross price minus the redemptions of all gift certificate
  instruments when that is positive, zero Money otherwise. The number of instruments is
  the same and the gift certificate instruments are untouched.
\<close>

theorem calculatePaymentTransaction_conventional:
  assumes "sameCurrency b" and "\<not> list_all isGiftCertificate (paymentInstruments b)"
  shows "\<exists>b'. calculatePaymentTransaction b = Inr (\<lparr>error = False\<rparr>, b') \<and>
           b' = b\<lparr>paymentInstruments :=
                   (paymentInstruments b)[firstConventional (paymentInstruments b) :=
                     (paymentInstruments b ! firstConventional (paymentInstruments b))
                       \<lparr>transactionAmount :=
                          Money (if 0 < openAmount b then openAmount b else 0)
                            (basketCurrencyCode b)\<rparr>]\<rparr> \<and>
           firstConventional (paymentInstruments b) < length (paymentInstruments b) \<and>
           \<not> isGiftCertificate (paymentInstruments b ! firstConventional (paymentInstruments b)) \<and>
           list_all isGiftCertificate
             (take (firstConventional (paymentInstruments b)) (paymentInstruments b)) \<and>
           length (paymentInstruments b') = length (paymentInstruments b) \<and>
           filter isGiftCertificate (paymentInstruments b') =
             filter isGiftCertificate (paymentInstruments b)"
proof -
  let ?ps = "paymentInstruments b"
  let ?i = "firstConventional ?ps"
  have cur: "list_all (\<lambda>p. currencyCode (transactionAmount p) = basketCurrencyCode b)
               (filter isGiftCertificate ?ps)"
    using assms(1) by (simp add: sameCurrency_def)
  have scan: "scanLoop (getPaymentInstruments b) 0 (Money 0 (basketCurrencyCode b)) =
          Inr (Money (sumRedeemed (takeWhile isGiftCertificate ?ps)) (basketCurrencyCode b), Some ?i)"
    using scanLoop_sameCurrency[OF cur, of 0 0] assms(2)
    by (simp add: getPaymentInstruments_def)
  have calc: "calculatePaymentTransaction b =
          Inr (\<lparr>error = False\<rparr>,
               setAmount b ?i (Money (if 0 < openAmount b then openAmount b else 0)
                                 (basketCurrencyCode b)))"
    unfolding calculatePaymentTransaction_def scan
      getNonGiftCertificateAmount_sameCurrency[OF assms(1)]
    by (simp add: Money_def not_less)
  have fc: "?i < length ?ps" "\<not> isGiftCertificate (?ps ! ?i)"
    using firstConventional_props[OF assms(2)] by simp_all
  have pre: "list_all isGiftCertificate (take ?i ?ps)"
    by (simp add: firstConventional_def list_all_iff flip: takeWhile_eq_take)
       (meson set_takeWhileD)
  have keep: "filter isGiftCertificate
                (?ps[?i := (?ps ! ?i)\<lparr>transactionAmount :=
                    Money (if 0 < openAmount b then openAmount b else 0) (basketCurrencyCode b)\<rparr>])
              = filter isGiftCertificate ?ps"
    using fc by (intro filter_update_other) (simp_all add: isGiftCertificate_def)
  from calc fc pre keep show ?thesis
    by (simp add: setAmount_def)
qed

text \<open>
  The theorem at a basket of total 50 USD holding certificate A (10), a card and
  certificate B (5): the card is charged 35.
\<close>

theorem calculatePaymentTransaction_conventional_witness:
  "sameCurrency mixed_basket \<and> \<not> list_all isGiftCertificate (paymentInstruments mixed_basket) \<and>
   firstConventional (paymentInstruments mixed_basket) = 1 \<and> openAmount mixed_basket = 35 \<and>
   calculatePaymentTransaction mixed_basket =
     Inr (\<lparr>error = False\<rparr>,
          mixed_basket\<lparr>paymentInstruments :=
            [giftCertificateInstrument ''A'' (Money 10 ''USD''),
             card 35,
             giftCertificateInstrument ''B'' (Money 5 ''USD'')]\<rparr>)"
proof -
  have s: "sameCurrency mixed_basket"
    by (simp add: mixed_basket_def sample_defs)
  have a: "\<not> list_all isGiftCertificate (paymentInstruments mixed_basket)"
    by (simp add: mixed_basket_def sample_defs)
  have i: "firstConventional (paymentInstruments mixed_basket) = 1"
    by (simp add: firstConventional_def mixed_basket_def sample_defs)
  have v: "openAmount mixed_basket = 35"
    by (simp add: openAmount_def mixed_basket_def sample_defs)
  from calculatePaymentTransaction_conventional[OF s a]
  have "calculatePaymentTransaction mixed_basket =
          Inr (\<lparr>error = False\<rparr>,
               mixed_basket\<lparr>paymentInstruments :=
                 (paymentInstruments mixed_basket)[1 :=
                   (paymentInstruments mixed_basket ! 1)
                     \<lparr>transactionAmount := Money 35 (basketCurrencyCode mixed_basket)\<rparr>]\<rparr>)"
    unfolding i v by simp
  then have "calculatePaymentTransaction mixed_basket =
     Inr (\<lparr>error = False\<rparr>,
          mixed_basket\<lparr>paymentInstruments :=
            [giftCertificateInstrument ''A'' (Money 10 ''USD''),
             card 35,
             giftCertificateInstrument ''B'' (Money 5 ''USD'')]\<rparr>)"
    by (simp add: mixed_basket_def card_def Money_def)
  with s a i v show ?thesis by simp
qed

subsection \<open>The steps of order placement in closed form\<close>

lemma createGiftCertificateFromLineItem_eq:
  "createGiftCertificateFromLineItem env li no w =
     (length (w_certificates w),
      w\<lparr>w_certificates :=
          w_certificates w @ [certificateFor env no (length (w_certificates w)) li],
        w_log := w_log w @ [CreateGiftCertificate (length (w_certificates w))]\<rparr>)"
  by (simp add: createGiftCertificateFromLineItem_def GiftCertificateMgr_createGiftCertificate_def
      updateCertificate_def logEvent_def certificateFor_def Let_def)

lemma mapCreate_eq:
  "mapCreate env lis w =
     ([length (w_certificates w) ..< length (w_certificates w) + length lis],
      w\<lparr>w_certificates :=
          w_certificates w @ issued env (orderNo (w_order w)) (length (w_certificates w)) lis,
        w_log := w_log w @
          map CreateGiftCertificate
            [length (w_certificates w) ..< length (w_certificates w) + length lis]\<rparr>)"
proof (induction lis arbitrary: w)
  case Nil
  show ?case by simp
next
  case (Cons li lis)
  have u: "[n ..< Suc (n + k)] = n # [Suc n ..< Suc (n + k)]" for n k :: nat
    by (simp add: upt_conv_Cons del: upt_Suc)
  show ?case
    by (simp add: createGiftCertificateFromLineItem_eq Cons.IH u del: upt_Suc)
qed

lemma sendGiftCertificateEmail_eq:
  "sendGiftCertificateEmail env ref w =
     (if deliverable env (w_certificates w) ref
      then (None, w\<lparr>w_log := w_log w @ [sendEvent env (w_certificates w) ref]\<rparr>)
      else (Some MailError, w))"
  by (simp add: sendGiftCertificateEmail_def emailHelpers_sendEmail_def deliverable_def
      sendEvent_def emailFor_def logEvent_def)

lemma forEachSend_eq:
  "forEachSend env refs w =
     (if list_all (deliverable env (w_certificates w)) refs
      then (None, w\<lparr>w_log := w_log w @ map (sendEvent env (w_certificates w)) refs\<rparr>)
      else (Some MailError,
            w\<lparr>w_log := w_log w @
               map (sendEvent env (w_certificates w))
                 (takeWhile (deliverable env (w_certificates w)) refs)\<rparr>))"
  by (induction refs arbitrary: w) (simp_all add: sendGiftCertificateEmail_eq)

lemma notified_append: "notified (xs @ ys) = notified xs @ notified ys"
  by (induction xs rule: notified.induct) simp_all

lemma created_append: "created (xs @ ys) = created xs @ created ys"
  by (induction xs rule: created.induct) simp_all

lemma notified_sends: "notified (map (sendEvent env certs) refs) = refs"
  by (induction refs) (simp_all add: sendEvent_def)

lemma notified_creates: "notified (map CreateGiftCertificate refs) = []"
  by (induction refs) simp_all

lemma created_sends: "created (map (sendEvent env certs) refs) = []"
  by (induction refs) (simp_all add: sendEvent_def)

lemma created_creates: "created (map CreateGiftCertificate refs) = refs"
  by (induction refs) simp_all

lemma length_issued: "length (issued env no n lis) = length lis"
  by (induction lis arbitrary: n) simp_all

lemma issued_nth:
  "i < length lis \<Longrightarrow> issued env no n lis ! i = certificateFor env no (n + i) (lis ! i)"
  by (induction lis arbitrary: n i) (auto simp: nth_Cons split: nat.splits)

lemma nonSuccess_simps [simp]:
  "nonSuccess (StatusConstant st) = (st = ERROR)"
  "nonSuccess (StatusObject st) = (st = ERROR)"
  by (simp_all add: nonSuccess_def statusOf_def)

lemma success_not_constant_ERROR: "\<not> nonSuccess a \<Longrightarrow> a \<noteq> StatusConstant ERROR"
  by auto

lemma proceededOrder_success:
  "\<not> nonSuccess (placeOrderResult env) \<Longrightarrow> proceededOrder env fds ord = placedOrder fds ord"
  by (simp add: proceededOrder_def placedOrder_def)

lemma placeOrder_error_eq:
  assumes "placeOrderResult env = StatusConstant ERROR"
  shows "placeOrder env fds w =
           (\<lparr>error = True\<rparr>,
            w\<lparr>w_order := (w_order w)\<lparr>o_status := ORDER_STATUS_FAILED\<rparr>,
              w_log := w_log w @
                [TransactionBegin, PlaceOrder, TransactionBegin, FailOrder, TransactionCommit]\<rparr>)"
  using assms
  by (simp add: placeOrder_def placeOrder_try_def Transaction_begin_def Transaction_commit_def
      Transaction_wrap_def OrderMgr_placeOrder_def OrderMgr_failOrder_def logEvent_def)

lemma placeOrder_eq:
  assumes "placeOrderResult env \<noteq> StatusConstant ERROR"
  shows "placeOrder env fds w =
           (if list_all (deliverable env (certificatesAfter env w)) (newRefs w)
            then (\<lparr>error = False\<rparr>,
                  w\<lparr>w_order := proceededOrder env fds (w_order w),
                    w_certificates := certificatesAfter env w,
                    w_log := w_log w @ [TransactionBegin, PlaceOrder] @
                      map CreateGiftCertificate (newRefs w) @
                      map (sendEvent env (certificatesAfter env w)) (newRefs w) @
                      [TransactionCommit]\<rparr>)
            else (\<lparr>error = True\<rparr>,
                  w\<lparr>w_order := (proceededOrder env fds (w_order w))
                                 \<lparr>o_status := ORDER_STATUS_FAILED\<rparr>,
                    w_certificates := certificatesAfter env w,
                    w_log := w_log w @ [TransactionBegin, PlaceOrder] @
                      map CreateGiftCertificate (newRefs w) @
                      map (sendEvent env (certificatesAfter env w))
                        (takeWhile (deliverable env (certificatesAfter env w)) (newRefs w)) @
                      [TransactionBegin, FailOrder, TransactionCommit]\<rparr>))"
  using assms
  by (simp add: placeOrder_def placeOrder_try_def Transaction_begin_def Transaction_commit_def
      Transaction_wrap_def OrderMgr_placeOrder_def OrderMgr_failOrder_def logEvent_def
      setConfirmationStatus_def setExportStatus_def mapCreate_eq forEachSend_eq
      proceededOrder_def newRefs_def certificatesAfter_def Let_def)

lemma sample_newRefs: "newRefs sample_world = [0, Suc 0]"
  by (simp add: newRefs_def sample_world_def)

lemma sample_certificatesAfter:
  "certificatesAfter (sample_env st raises) sample_world =
     [certificateFor (sample_env st raises) ''00000001'' 0 (sample_lineItem ''u1'' 25),
      certificateFor (sample_env st raises) ''00000001'' (Suc 0) (sample_lineItem ''u2'' 10)]"
  by (simp add: certificatesAfter_def sample_world_def)

lemma sample_sendEvent:
  "sendEvent (sample_env st raises)
     [certificateFor (sample_env st raises) no 0 (sample_lineItem u v),
      certificateFor (sample_env st raises) no (Suc 0) (sample_lineItem u' v')] 0
   = SendEmail sample_mail ''mail/giftcert'' 0"
  "sendEvent (sample_env st raises)
     [certificateFor (sample_env st raises) no 0 (sample_lineItem u v),
      certificateFor (sample_env st raises) no (Suc 0) (sample_lineItem u' v')] (Suc 0)
   = SendEmail sample_mail ''mail/giftcert'' (Suc 0)"
  by (simp_all add: sendEvent_def emailFor_def certificateFor_def sample_lineItem_def
      sample_env_def sample_mail_def)

lemma sample_placeOrder_no_raise:
  "placeOrder (sample_env a (\<lambda>g. False)) sample_fraud sample_world =
     (\<lparr>error = (a = StatusConstant ERROR)\<rparr>,
      if a = StatusConstant ERROR
      then sample_world
             \<lparr>w_order := (w_order sample_world)\<lparr>o_status := ORDER_STATUS_FAILED\<rparr>,
              w_log := [TransactionBegin, PlaceOrder, TransactionBegin, FailOrder,
                        TransactionCommit]\<rparr>
      else sample_world
             \<lparr>w_order := proceededOrder (sample_env a (\<lambda>g. False)) sample_fraud
                           (w_order sample_world),
              w_certificates := certificatesAfter (sample_env a (\<lambda>g. False)) sample_world,
              w_log :=
                [TransactionBegin, PlaceOrder, CreateGiftCertificate 0, CreateGiftCertificate 1,
                 SendEmail sample_mail ''mail/giftcert'' 0,
                 SendEmail sample_mail ''mail/giftcert'' 1, TransactionCommit]\<rparr>)"
proof (cases "a = StatusConstant ERROR")
  case True
  then have "placeOrderResult (sample_env a (\<lambda>g. False)) = StatusConstant ERROR"
    by (simp add: sample_env_def)
  from placeOrder_error_eq[OF this, of sample_fraud sample_world] True show ?thesis
    by (simp add: sample_world_def)
next
  case False
  then have ok: "placeOrderResult (sample_env a (\<lambda>g. False)) \<noteq> StatusConstant ERROR"
    by (simp add: sample_env_def)
  have d: "deliverable (sample_env a (\<lambda>g. False)) certs n" for certs n
    by (simp add: deliverable_def sample_env_def)
  have l: "w_log sample_world = []"
    by (simp add: sample_world_def)
  from False show ?thesis
    by (simp add: placeOrder_eq[OF ok] sample_newRefs d l)
       (simp add: sample_certificatesAfter sample_sendEvent)
qed

lemma sample_placeOrder_quiet:
  "placeOrder (sample_env (StatusObject OK) (\<lambda>g. False)) sample_fraud sample_world =
     (\<lparr>error = False\<rparr>,
      sample_world
        \<lparr>w_order := placedOrder sample_fraud (w_order sample_world),
         w_certificates :=
           certificatesAfter (sample_env (StatusObject OK) (\<lambda>g. False)) sample_world,
         w_log :=
           [TransactionBegin, PlaceOrder, CreateGiftCertificate 0, CreateGiftCertificate 1,
            SendEmail sample_mail ''mail/giftcert'' 0, SendEmail sample_mail ''mail/giftcert'' 1,
            TransactionCommit]\<rparr>)"
proof -
  have "proceededOrder (sample_env (StatusObject OK) (\<lambda>g. False)) sample_fraud
          (w_order sample_world) = placedOrder sample_fraud (w_order sample_world)"
    by (rule proceededOrder_success) (simp add: sample_env_def)
  with sample_placeOrder_no_raise[of "StatusObject OK"] show ?thesis by simp
qed

subsection \<open>C3: the order manager refuses the placement\<close>

text \<open>
  Claim C3 says that whenever the order manager's placement call returns a non-success
  status, \<^verbatim>\<open>placeOrder\<close> returns \<^verbatim>\<open>{ error: true }\<close>, creates no certificate, sends no
  mail and fails the order inside \<^verbatim>\<open>Transaction.wrap\<close>. The code does so only when the
  returned value is the constant \<^verbatim>\<open>Status.ERROR\<close> itself (lemma \<open>placeOrder_error_eq\<close>).
  When the call returns a \<^verbatim>\<open>Status\<close> object whose status is \<^verbatim>\<open>ERROR\<close>, the strict
  comparison is false and the code goes on: at the sample order it leaves the order
  unplaced (status still created) and unfailed, sets it confirmed and ready for export,
  creates both certificates, sends both mails, commits and returns \<^verbatim>\<open>{ error: false }\<close>.
\<close>

theorem placeOrder_error_status_object:
  "nonSuccess (placeOrderResult error_status_env) \<and>
   placeOrder error_status_env sample_fraud sample_world =
     (\<lparr>error = False\<rparr>,
      sample_world
        \<lparr>w_order := (w_order sample_world)
                      \<lparr>o_confirmationStatus := CONFIRMATION_STATUS_CONFIRMED,
                       o_exportStatus := EXPORT_STATUS_READY\<rparr>,
         w_certificates := certificatesAfter error_status_env sample_world,
         w_log :=
           [TransactionBegin, PlaceOrder, CreateGiftCertificate 0, CreateGiftCertificate 1,
            SendEmail sample_mail ''mail/giftcert'' 0, SendEmail sample_mail ''mail/giftcert'' 1,
            TransactionCommit]\<rparr>) \<and>
   o_status (w_order (snd (placeOrder error_status_env sample_fraud sample_world)))
     = ORDER_STATUS_CREATED \<and>
   length (w_certificates (snd (placeOrder error_status_env sample_fraud sample_world))) = 2 \<and>
   notified (w_log (snd (placeOrder error_status_env sample_fraud sample_world))) = [0, 1]"
proof -
  have n: "nonSuccess (placeOrderResult (sample_env (StatusObject ERROR) (\<lambda>g. False)))"
    by (simp add: sample_env_def)
  have o: "proceededOrder (sample_env (StatusObject ERROR) (\<lambda>g. False)) sample_fraud
             (w_order sample_world) =
           (w_order sample_world)\<lparr>o_confirmationStatus := CONFIRMATION_STATUS_CONFIRMED,
                                  o_exportStatus := EXPORT_STATUS_READY\<rparr>"
    by (simp add: proceededOrder_def n sample_fraud_def)
  have s: "o_status (w_order sample_world) = ORDER_STATUS_CREATED"
    by (simp add: sample_world_def)
  from sample_placeOrder_no_raise[of "StatusObject ERROR"] n show ?thesis
    unfolding error_status_env_def
    by (simp add: o s sample_certificatesAfter)
qed

subsection \<open>C2: when the recipients are notified\<close>

text \<open>
  Claim C2, as the code has it. When the order manager's placement succeeds, the mails
  are sent inside the \<^verbatim>\<open>try\<close> block, after all certificates are created and before
  \<^verbatim>\<open>Transaction.commit\<close>. A mail that raises ends the dispatch: the later mails are not
  sent, the transaction is not committed, the \<^verbatim>\<open>catch\<close> block fails the order inside
  \<^verbatim>\<open>Transaction.wrap\<close> and the result is \<^verbatim>\<open>{ error: true }\<close>. When no mail raises, the
  result is \<^verbatim>\<open>{ error: false }\<close> and the commit follows the last mail.
\<close>

theorem placeOrder_notifies_inside_transaction:
  assumes "\<not> nonSuccess (placeOrderResult env)"
  shows "case placeOrder env fds w of
           (r, w') \<Rightarrow>
             error r = (\<not> list_all (deliverable env (certificatesAfter env w)) (newRefs w)) \<and>
             w_log w' =
               w_log w @ [TransactionBegin, PlaceOrder] @
               map CreateGiftCertificate (newRefs w) @
               map (sendEvent env (certificatesAfter env w))
                 (takeWhile (deliverable env (certificatesAfter env w)) (newRefs w)) @
               (if error r then [TransactionBegin, FailOrder, TransactionCommit]
                else [TransactionCommit]) \<and>
             o_status (w_order w') =
               (if error r then ORDER_STATUS_FAILED else ORDER_STATUS_NEW)"
  by (simp add: placeOrder_eq[OF success_not_constant_ERROR[OF assms]] takeWhile_all
      proceededOrder_success[OF assms] placedOrder_def)

text \<open>
  The theorem at the sample order (two line items), with a mail helper that raises for
  the second certificate: the first mail is out, the order is failed and the result is
  \<^verbatim>\<open>{ error: true }\<close>.
\<close>

theorem placeOrder_notifies_inside_transaction_witness:
  "\<not> nonSuccess (placeOrderResult second_mail_fails_env) \<and>
   fst (placeOrder second_mail_fails_env sample_fraud sample_world)
     = \<lparr>error = True\<rparr> \<and>
   o_status (w_order (snd (placeOrder second_mail_fails_env sample_fraud
      sample_world))) = ORDER_STATUS_FAILED \<and>
   w_log (snd (placeOrder second_mail_fails_env sample_fraud sample_world)) =
     [TransactionBegin, PlaceOrder, CreateGiftCertificate 0, CreateGiftCertificate 1,
      SendEmail sample_mail ''mail/giftcert'' 0,
      TransactionBegin, FailOrder, TransactionCommit]"
proof -
  let ?env = "sample_env (StatusObject OK) (\<lambda>g. gc_amount g = 10)"
  have ok: "\<not> nonSuccess (placeOrderResult ?env)"
    by (simp add: sample_env_def)
  have d: "deliverable ?env (certificatesAfter ?env sample_world) 0"
          "\<not> deliverable ?env (certificatesAfter ?env sample_world) (Suc 0)"
    unfolding deliverable_def sample_certificatesAfter
    by (simp_all add: certificateFor_def sample_lineItem_def Money_def sample_env_def)
  have l: "w_log sample_world = []"
    by (simp add: sample_world_def)
  from placeOrder_notifies_inside_transaction[OF ok, where fds = sample_fraud and w = sample_world] ok
  show ?thesis
    unfolding second_mail_fails_env_def
    by (simp add: sample_newRefs d l split: prod.splits)
       (simp add: sample_certificatesAfter sample_sendEvent)
qed

text \<open>
  C2 as stated says that a failure of the notification is never folded into the result
  and that the notifications go out after the commit. With a mail helper that raises, the
  successfully placed sample order ends failed with \<^verbatim>\<open>{ error: true }\<close>; with one that
  never raises, both mails precede \<^verbatim>\<open>TransactionCommit\<close> in the log.
\<close>

theorem placeOrder_notification_counterexample:
  "\<not> nonSuccess (placeOrderResult no_mail_env) \<and>
   fst (placeOrder no_mail_env sample_fraud sample_world) = \<lparr>error = True\<rparr> \<and>
   o_status (w_order (snd (placeOrder no_mail_env sample_fraud sample_world)))
     = ORDER_STATUS_FAILED \<and>
   placeOrder quiet_env sample_fraud sample_world =
     (\<lparr>error = False\<rparr>,
      sample_world
        \<lparr>w_order := placedOrder sample_fraud (w_order sample_world),
         w_certificates := certificatesAfter quiet_env sample_world,
         w_log :=
           [TransactionBegin, PlaceOrder, CreateGiftCertificate 0, CreateGiftCertificate 1,
            SendEmail sample_mail ''mail/giftcert'' 0, SendEmail sample_mail ''mail/giftcert'' 1,
            TransactionCommit]\<rparr>)"
proof -
  let ?E = "sample_env (StatusObject OK) (\<lambda>g. True)"
  have ok: "\<not> nonSuccess (placeOrderResult ?E)"
    by (simp add: sample_env_def)
  have d: "\<not> deliverable ?E (certificatesAfter ?E sample_world) 0"
    by (simp add: deliverable_def sample_env_def)
  have l: "w_log sample_world = []"
    by (simp add: sample_world_def)
  have bad: "placeOrder ?E sample_fraud sample_world =
      (\<lparr>error = True\<rparr>,
       sample_world
         \<lparr>w_order := (placedOrder sample_fraud (w_order sample_world))
                       \<lparr>o_status := ORDER_STATUS_FAILED\<rparr>,
          w_certificates := certificatesAfter ?E sample_world,
          w_log := [TransactionBegin, PlaceOrder, CreateGiftCertificate 0,
                    CreateGiftCertificate 1, TransactionBegin, FailOrder,
                    TransactionCommit]\<rparr>)"
    by (simp add: placeOrder_eq[OF success_not_constant_ERROR[OF ok]]
          proceededOrder_success[OF ok] sample_newRefs d l)
  from ok bad sample_placeOrder_quiet show ?thesis
    unfolding no_mail_env_def quiet_env_def by simp
qed

subsection \<open>C7: one certificate and one notification per line item\<close>

text \<open>
  Claim C7. When \<^verbatim>\<open>placeOrder\<close> returns \<^verbatim>\<open>{ error: false }\<close>, the certificate store has
  gained exactly one certificate per gift certificate line item of the order, in line item
  order: its balance is the line item's net price value, its recipient email, recipient
  name, sender name and message are the line item's, and its order number is the
  order's. The log gained exactly one certificate creation and exactly one mail for each
  of the new certificates.
\<close>

theorem placeOrder_materializes:
  assumes "placeOrder env fds w = (r, w')" and "\<not> error r"
  shows "length (w_certificates w') =
           length (w_certificates w) + length (o_giftCertificateLineItems (w_order w))
       \<and> take (length (w_certificates w)) (w_certificates w') = w_certificates w
       \<and> (\<forall>i < length (o_giftCertificateLineItems (w_order w)).
            gc_balance (w_certificates w' ! (length (w_certificates w) + i)) =
              Money (mvalue (li_netPrice (o_giftCertificateLineItems (w_order w) ! i)))
                (siteCurrencyCode env) \<and>
            gc_recipientEmail (w_certificates w' ! (length (w_certificates w) + i)) =
              li_recipientEmail (o_giftCertificateLineItems (w_order w) ! i) \<and>
            gc_recipientName (w_certificates w' ! (length (w_certificates w) + i)) =
              li_recipientName (o_giftCertificateLineItems (w_order w) ! i) \<and>
            gc_senderName (w_certificates w' ! (length (w_certificates w) + i)) =
              li_senderName (o_giftCertificateLineItems (w_order w) ! i) \<and>
            gc_message (w_certificates w' ! (length (w_certificates w) + i)) =
              li_message (o_giftCertificateLineItems (w_order w) ! i) \<and>
            gc_orderNo (w_certificates w' ! (length (w_certificates w) + i)) =
              Some (orderNo (w_order w)))
       \<and> created (w_log w') = created (w_log w) @ newRefs w
       \<and> notified (w_log w') = notified (w_log w) @ newRefs w"
proof -
  let ?lis = "o_giftCertificateLineItems (w_order w)"
  let ?n = "length (w_certificates w)"
  have ok: "placeOrderResult env \<noteq> StatusConstant ERROR"
  proof
    assume "placeOrderResult env = StatusConstant ERROR"
    from placeOrder_error_eq[OF this, of fds w] assms show False by simp
  qed
  have all: "list_all (deliverable env (certificatesAfter env w)) (newRefs w)"
  proof (rule ccontr)
    assume "\<not> ?thesis"
    with placeOrder_eq[OF ok, of fds w] assms show False by simp
  qed
  with placeOrder_eq[OF ok, of fds w] assms(1)
  have w': "w' = w\<lparr>w_order := proceededOrder env fds (w_order w),
                    w_certificates := certificatesAfter env w,
                    w_log := w_log w @ [TransactionBegin, PlaceOrder] @
                      map CreateGiftCertificate (newRefs w) @
                      map (sendEvent env (certificatesAfter env w)) (newRefs w) @
                      [TransactionCommit]\<rparr>"
    by simp
  have certs: "w_certificates w' = w_certificates w @ issued env (orderNo (w_order w)) ?n ?lis"
    by (simp add: w' certificatesAfter_def)
  have len: "length (w_certificates w') = ?n + length ?lis"
    by (simp add: certs length_issued)
  have old: "take ?n (w_certificates w') = w_certificates w"
    by (simp add: certs)
  have each: "w_certificates w' ! (?n + i) =
                certificateFor env (orderNo (w_order w)) (?n + i) (?lis ! i)"
    if "i < length ?lis" for i
    using that by (simp add: certs issued_nth)
  have cr: "created (w_log w') = created (w_log w) @ newRefs w"
    by (simp add: w' created_append created_creates created_sends)
  have nt: "notified (w_log w') = notified (w_log w) @ newRefs w"
    by (simp add: w' notified_append notified_creates notified_sends)
  from len old cr nt each show ?thesis
    by (simp add: certificateFor_def)
qed

text \<open>
  The theorem at the sample order with line items of 25 and 10 USD: two certificates with
  balances 25 and 10 USD, and two mails, one per certificate.
\<close>

theorem placeOrder_materializes_witness:
  "fst (placeOrder quiet_env sample_fraud sample_world) = \<lparr>error = False\<rparr> \<and>
   map li_netPrice (o_giftCertificateLineItems (w_order sample_world)) =
     [Money 25 ''USD'', Money 10 ''USD''] \<and>
   length (w_certificates
     (snd (placeOrder quiet_env sample_fraud sample_world))) = 2 \<and>
   gc_balance (w_certificates
     (snd (placeOrder quiet_env sample_fraud sample_world)) ! 0)
     = Money 25 ''USD'' \<and>
   gc_balance (w_certificates
     (snd (placeOrder quiet_env sample_fraud sample_world)) ! 1)
     = Money 10 ''USD'' \<and>
   notified (w_log
     (snd (placeOrder quiet_env sample_fraud sample_world))) = [0, 1]"
proof -
  let ?E = "sample_env (StatusObject OK) (\<lambda>g. False)"
  obtain r w' where p: "placeOrder ?E sample_fraud sample_world = (r, w')"
    by (cases "placeOrder ?E sample_fraud sample_world")
  with sample_placeOrder_quiet have r: "r = \<lparr>error = False\<rparr>" by simp
  then have e: "\<not> error r" by simp
  have lis: "o_giftCertificateLineItems (w_order sample_world) =
               [sample_lineItem ''u1'' 25, sample_lineItem ''u2'' 10]"
            "w_certificates sample_world = []" "w_log sample_world = []"
    by (simp_all add: sample_world_def)
  have cur: "siteCurrencyCode ?E = ''USD''"
    by (simp add: sample_env_def)
  from placeOrder_materializes[OF p e]
  have "length (w_certificates w') = 2"
    and "\<forall>i<2. gc_balance (w_certificates w' ! i) =
           Money (mvalue (li_netPrice ([sample_lineItem ''u1'' 25, sample_lineItem ''u2'' 10] ! i)))
             ''USD''"
    and "notified (w_log w') = [0, 1]"
    by (simp_all add: lis cur sample_newRefs)
  then have "length (w_certificates w') = 2"
    and "gc_balance (w_certificates w' ! 0) = Money 25 ''USD''"
    and "gc_balance (w_certificates w' ! 1) = Money 10 ''USD''"
    and "notified (w_log w') = [0, 1]"
    by (simp_all add: sample_lineItem_def Money_def)
  with p r lis show ?thesis
    unfolding quiet_env_def
    by (simp add: sample_lineItem_def)
qed

subsection \<open>C8: editing a line item and reading it back\<close>

lemma getGiftCertificateLineItemByUUID_distinct:
  "distinct (map li_UUID items) \<Longrightarrow> i < length items \<Longrightarrow>
   getGiftCertificateLineItemByUUID items (li_UUID (items ! i)) = Some i"
proof (induction items arbitrary: i)
  case Nil
  then show ?case by simp
next
  case (Cons item items)
  show ?case
  proof (cases i)
    case 0
    then show ?thesis by simp
  next
    case (Suc j)
    with Cons.prems have "j < length items" "li_UUID item \<noteq> li_UUID (items ! j)"
      by auto
    with Cons Suc show ?thesis by simp
  qed
qed

text \<open>
  Claim C8. In a basket whose gift certificate line items have distinct, non-empty UUIDs,
  \<^verbatim>\<open>updateGiftCert\<close> with the UUID of the line item at position \<open>i\<close> in the form
  returns that line item, and \<^verbatim>\<open>getGiftLineItemObj\<close> of it gives back the form's sender,
  recipient, recipient email (also as the confirmation), message and amount, with the
  line item's UUID, under either taxation policy.
\<close>

theorem updateGiftCert_roundtrip:
  assumes "i < length (giftCertificateLineItems b)"
    and "distinct (map li_UUID (giftCertificateLineItems b))"
    and "li_UUID (giftCertificateLineItems b ! i) \<noteq> []"
    and "fvalue (pf_lineItemId form) = Some (li_UUID (giftCertificateLineItems b ! i))"
  shows "\<exists>b'. updateGiftCert form b = (Some i, b') \<and>
           length (giftCertificateLineItems b') = length (giftCertificateLineItems b) \<and>
           getGiftLineItemObj net (giftCertificateLineItems b' ! i) =
             \<lparr>obj_from = fvalue (pf_from form),
              obj_lineItemId = li_UUID (giftCertificateLineItems b ! i),
              obj_recipient = fvalue (pf_recipient form),
              obj_recipientEmail = fvalue (pf_recipientEmail form),
              obj_confirmRecipientEmail = fvalue (pf_recipientEmail form),
              obj_message = fvalue (pf_message form),
              obj_amount = fvalue (pf_amount form)\<rparr>"
proof -
  have found: "getGiftCertificateLineItemByUUID (giftCertificateLineItems b)
                 (li_UUID (giftCertificateLineItems b ! i)) = Some i"
    by (rule getGiftCertificateLineItemByUUID_distinct[OF assms(2) assms(1)])
  from assms(1) have ne: "giftCertificateLineItems b \<noteq> []" by auto
  show ?thesis
    using assms(1,3)
    by (simp add: updateGiftCert_def assms(4) found ne Let_def
        getGiftLineItemObj_def li_price_def Money_def)
qed

text \<open>
  The theorem at a basket with two line items, editing the second.
\<close>

theorem updateGiftCert_roundtrip_witness:
  "Suc 0 < length (giftCertificateLineItems gift_basket) \<and>
   distinct (map li_UUID (giftCertificateLineItems gift_basket)) \<and>
   fvalue (pf_lineItemId edit_form) = Some (li_UUID (giftCertificateLineItems gift_basket ! Suc 0)) \<and>
   fst (updateGiftCert edit_form gift_basket) = Some (Suc 0) \<and>
   getGiftLineItemObj True
     (giftCertificateLineItems (snd (updateGiftCert edit_form gift_basket)) ! Suc 0) =
     \<lparr>obj_from = ''Carol'', obj_lineItemId = ''u2'', obj_recipient = ''Dave'',
      obj_recipientEmail = ''Dave@Example.com'',
      obj_confirmRecipientEmail = ''Dave@Example.com'',
      obj_message = ''Happy birthday'', obj_amount = 40\<rparr>"
proof -
  have a: "Suc 0 < length (giftCertificateLineItems gift_basket)"
    by (simp add: gift_basket_def)
  have d: "distinct (map li_UUID (giftCertificateLineItems gift_basket))"
    by (simp add: gift_basket_def sample_lineItem_def)
  have u: "li_UUID (giftCertificateLineItems gift_basket ! Suc 0) = ''u2''"
    by (simp add: gift_basket_def sample_lineItem_def)
  have n: "li_UUID (giftCertificateLineItems gift_basket ! Suc 0) \<noteq> []"
    unfolding u by simp
  have f: "fvalue (pf_lineItemId edit_form) =
             Some (li_UUID (giftCertificateLineItems gift_basket ! Suc 0))"
    by (simp add: u edit_form_def)
  from updateGiftCert_roundtrip[OF a d n f, of True]
  obtain b' where "updateGiftCert edit_form gift_basket = (Some (Suc 0), b')"
    and "getGiftLineItemObj True (giftCertificateLineItems b' ! Suc 0) =
           \<lparr>obj_from = fvalue (pf_from edit_form),
            obj_lineItemId = li_UUID (giftCertificateLineItems gift_basket ! Suc 0),
            obj_recipient = fvalue (pf_recipient edit_form),
            obj_recipientEmail = fvalue (pf_recipientEmail edit_form),
            obj_confirmRecipientEmail = fvalue (pf_recipientEmail edit_form),
            obj_message = fvalue (pf_message edit_form),
            obj_amount = fvalue (pf_amount edit_form)\<rparr>"
    by blast
  with a d f u show ?thesis
    by (simp add: edit_form_def)
qed

subsection \<open>C9: the mini cart without a basket\<close>

text \<open>
  Claim C9. Without a current basket the handler raises: the quantity falls back to 0
  under the guard, and the next statement reads \<^verbatim>\<open>giftCertificateLineItems\<close> of
  \<^verbatim>\<open>null\<close>. With a basket it returns the product quantity plus the number of gift
  certificate line items.
\<close>

theorem MiniCart_null_basket:
  "MiniCart None = Inl TypeError \<and>
   (\<forall>b. MiniCart (Some b) =
      Inr \<lparr>quantityTotal = productQuantityTotal b + of_nat (length (giftCertificateLineItems b))\<rparr>)"
  by (simp add: MiniCart_def Let_def)

subsection \<open>C10: validating the purchase form\<close>

text \<open>
  Claim C10. Whatever the language's \<^verbatim>\<open>toLowerCase\<close> computes, \<^verbatim>\<open>processAddToBasket\<close>
  returns an invalid form whenever the two email addresses differ after lower-casing or
  the amount field is valid and its value is below 5 or above 5000; when neither holds
  (so also for two addresses that lower-casing makes equal) it returns the form unchanged.
  So the returned form is valid exactly when the given form was and neither condition
  holds.
\<close>

theorem processAddToBasket_validity:
  "(emailMismatch toLowerCase f \<or> amountOutOfRange f
      \<longrightarrow> \<not> valid (processAddToBasket toLowerCase env f)) \<and>
   (\<not> emailMismatch toLowerCase f \<and> \<not> amountOutOfRange f
      \<longrightarrow> processAddToBasket toLowerCase env f = f) \<and>
   (toLowerCase (fvalue (pf_recipientEmail (purchase f))) =
      toLowerCase (fvalue (pf_confirmRecipientEmail (purchase f))) \<and> \<not> amountOutOfRange f
      \<longrightarrow> processAddToBasket toLowerCase env f = f) \<and>
   valid (processAddToBasket toLowerCase env f) =
     (valid f \<and> \<not> emailMismatch toLowerCase f \<and> \<not> amountOutOfRange f)"
  by (auto simp: processAddToBasket_def emailMismatch_def amountOutOfRange_def Let_def)

text \<open>
  The theorem with a folding that lower-cases A to Z and E acute as the language does: a
  form whose two addresses differ only in the case of ASCII letters and one whose
  addresses differ only in the case of E acute, both with amount 40, are returned
  unchanged; the first form with amount 5001 is returned invalid.
\<close>

theorem processAddToBasket_validity_witness:
  "fvalue (pf_recipientEmail edit_form) \<noteq> fvalue (pf_confirmRecipientEmail edit_form) \<and>
   \<not> emailMismatch sample_toLowerCase \<lparr>purchase = edit_form, valid = True\<rparr> \<and>
   \<not> amountOutOfRange \<lparr>purchase = edit_form, valid = True\<rparr> \<and>
   processAddToBasket sample_toLowerCase quiet_env \<lparr>purchase = edit_form, valid = True\<rparr>
     = \<lparr>purchase = edit_form, valid = True\<rparr> \<and>
   fvalue (pf_recipientEmail accent_form) \<noteq> fvalue (pf_confirmRecipientEmail accent_form) \<and>
   processAddToBasket sample_toLowerCase quiet_env \<lparr>purchase = accent_form, valid = True\<rparr>
     = \<lparr>purchase = accent_form, valid = True\<rparr> \<and>
   amountOutOfRange \<lparr>purchase = edit_form\<lparr>pf_amount := \<lparr>fvalue = 5001, fvalid = True,
       ferror = None\<rparr>\<rparr>, valid = True\<rparr> \<and>
   \<not> valid (processAddToBasket sample_toLowerCase quiet_env
       \<lparr>purchase = edit_form\<lparr>pf_amount := \<lparr>fvalue = 5001, fvalid = True, ferror = None\<rparr>\<rparr>,
        valid = True\<rparr>)"
proof -
  let ?f = "\<lparr>purchase = edit_form, valid = True\<rparr>"
  let ?a = "\<lparr>purchase = accent_form, valid = True\<rparr>"
  let ?g = "\<lparr>purchase = edit_form\<lparr>pf_amount := \<lparr>fvalue = 5001, fvalid = True,
       ferror = None\<rparr>\<rparr>, valid = True\<rparr>"
  have d: "fvalue (pf_recipientEmail edit_form) \<noteq> fvalue (pf_confirmRecipientEmail edit_form)"
    by (simp add: edit_form_def)
  have d': "fvalue (pf_recipientEmail accent_form) \<noteq>
            fvalue (pf_confirmRecipientEmail accent_form)"
    by (simp add: accent_form_def)
  have m: "\<not> emailMismatch sample_toLowerCase ?f"
    by (simp add: emailMismatch_def edit_form_def sample_toLowerCase_def)
  have m': "\<not> emailMismatch sample_toLowerCase ?a"
    by (simp add: emailMismatch_def accent_form_def sample_toLowerCase_def)
  have r: "\<not> amountOutOfRange ?f"
    by (simp add: amountOutOfRange_def edit_form_def)
  have ra: "\<not> amountOutOfRange ?a"
    by (simp add: amountOutOfRange_def accent_form_def edit_form_def)
  have r': "amountOutOfRange ?g"
    by (simp add: amountOutOfRange_def edit_form_def)
  from processAddToBasket_validity[of sample_toLowerCase ?f quiet_env] m r
  have 1: "processAddToBasket sample_toLowerCase quiet_env ?f = ?f" by blast
  from processAddToBasket_validity[of sample_toLowerCase ?a quiet_env] m' ra
  have 2: "processAddToBasket sample_toLowerCase quiet_env ?a = ?a" by blast
  from processAddToBasket_validity[of sample_toLowerCase ?g quiet_env] r'
  have 3: "\<not> valid (processAddToBasket sample_toLowerCase quiet_env ?g)" by blast
  from d d' m r r' 1 2 3 show ?thesis by blast
qed

end
